theory Spec2Isabelle
  imports Complex_Main
begin

section \<open>Data model\<close>

text \<open>
  Modelled from the spec: the declaration of the Prisma enum \<open>BookingStatus\<close>, the
  booking lifecycle status, is not among the sources; the values are the ones the sources
  use plus \<open>EXPIRED\<close>, which the spec lists.
\<close>

datatype BookingStatus =
  WAITLISTED | PENDING | RESERVED | CONFIRMED | CANCELLED | EXPIRED | FAILED

text \<open>
  A row of the booking table, with the columns that submission and verification read or
  write. Nullable columns are options; JavaScript numbers holding money amounts are
  rationals. \<open>dbId\<close> is the primary key (\<open>booking.id\<close>), \<open>bookingId\<close> the unique
  external identifier. \<open>userEmail\<close> and \<open>hasStay\<close> stand for the included relations
  \<open>booking.user?.email\<close> and \<open>booking.stay\<close>.
\<close>

record booking =
  dbId :: string
  bookingId :: string
  status :: BookingStatus
  requiresReservation :: bool
  paymentToken :: "string option"
  paymentAmount :: "rat option"
  txHash :: "string option"
  chainId :: "int option"
  reservationAmount :: "rat option"
  reservationToken :: "string option"
  reservationTxHash :: "string option"
  reservationPaid :: bool
  reservationPaidAt :: "nat option"
  reservationChainId :: "int option"
  remainingAmount :: "rat option"
  remainingToken :: "string option"
  remainingTxHash :: "string option"
  remainingPaid :: bool
  remainingPaidAt :: "nat option"
  remainingChainId :: "int option"
  confirmedAt :: "nat option"
  blockNumber :: "nat option"
  senderAddress :: "string option"
  receiverAddress :: "string option"
  gasUsed :: "nat option"
  gasFeeUSD :: "rat option"
  totalPaid :: "rat option"
  userEmail :: "string option"
  hasStay :: bool

text \<open>Errors thrown inside the verification loop (the argument of \<open>new Error\<close>,
  or the failing call).\<close>

datatype exn =
  BookingNotFound                 \<comment> \<open>\<open>'Booking not found'\<close>\<close>
  | ReservationNotPaidYet         \<comment> \<open>\<open>'Cannot verify remaining payment - reservation not paid yet'\<close>\<close>
  | NoClientConfigured int        \<comment> \<open>\<open>`No client configured for chain ${chainId}`\<close>\<close>
  | ChainNotConfigured int        \<comment> \<open>\<open>`Chain ${chainId} not configured`\<close>\<close>
  | TokenNotConfigured string int \<comment> \<open>\<open>`Token ${paymentToken} not configured for chain ${chainId}`\<close>\<close>
  | ReceiptFetchError             \<comment> \<open>\<open>getTransactionReceipt\<close> threw\<close>
  | TransactionFetchError         \<comment> \<open>\<open>getTransaction\<close> threw\<close>
  | ParseUnitsError               \<comment> \<open>\<open>parseUnits\<close> threw\<close>
  | BigIntSyntaxError             \<comment> \<open>\<open>BigInt(log.data)\<close> threw\<close>
  | RecordNotFound                \<comment> \<open>\<open>db.booking.update\<close> found no row for the key\<close>

text \<open>The \<open>error\<close> entry of the details that \<open>updateBookingStatus\<close> is given.\<close>

datatype failure =
  PaymentDetailsNotLocked         \<comment> \<open>\<open>'Payment details not locked'\<close>\<close>
  | TransactionTimeout            \<comment> \<open>\<open>'Transaction timeout - not mined after retries'\<close>\<close>
  | TransactionFailedOnChain      \<comment> \<open>\<open>'Transaction failed on blockchain'\<close>\<close>
  | NoTransferEvents              \<comment> \<open>\<open>'No transfer events in transaction'\<close>\<close>
  | PaymentAmountMismatch nat int \<comment> \<open>\<open>'Payment amount mismatch on blockchain'\<close>, on-chain and expected base units\<close>
  | WrongTreasury                 \<comment> \<open>\<open>'Transfer not sent to correct treasury address'\<close>\<close>
  | AttemptsFailed exn nat        \<comment> \<open>catch block: \<open>error.message\<close> and \<open>attempts\<close>\<close>

datatype log_action =
  reservation_paid
  | remaining_payment_confirmed
  | payment_confirmed
  | email_failed
  | payment_status BookingStatus  \<comment> \<open>\<open>`payment_${status.toLowerCase()}`\<close>\<close>
  | payment_submitted
  | remaining_payment_submitted

record log_entry =
  log_booking :: string           \<comment> \<open>\<open>booking.id\<close>\<close>
  log_action :: log_action
  log_error :: "failure option"
  log_txHash :: "string option"

datatype email_kind = ReservationConfirmedEmail | ConfirmationEmail

record email =
  kind :: email_kind
  recipientEmail :: string
  mail_bookingId :: string
  mail_txHash :: string
  mail_amount :: "rat option"

text \<open>The persistent store together with the notifications that were delivered.\<close>

record state =
  bookings :: "booking list"
  activityLog :: "log_entry list"
  outbox :: "email list"

section \<open>Store access\<close>

text \<open>\<open>db.booking.findUnique({ where: { bookingId } })\<close>.\<close>

definition findUnique :: "booking list \<Rightarrow> string \<Rightarrow> booking option" where
  "findUnique bs bid = List.find (\<lambda>b. bookingId b = bid) bs"

text \<open>
  \<open>db.booking.update({ where: { bookingId }, data })\<close>: the row with the key is
  rewritten, whatever its current contents; Prisma throws when there is no such row.
  That is the only failure of the store in the model: reads and activity log writes
  succeed. The table carries no constraint besides the key.
\<close>

fun updateWhere :: "string \<Rightarrow> (booking \<Rightarrow> booking) \<Rightarrow> booking list \<Rightarrow> booking list option" where
  "updateWhere bid f [] = None"
| "updateWhere bid f (b # bs) =
     (if bookingId b = bid then Some (f b # bs)
      else map_option ((#) b) (updateWhere bid f bs))"

text \<open>Helper to update booking status (\<open>updateBookingStatus\<close>).\<close>

definition updateBookingStatus :: "state \<Rightarrow> string \<Rightarrow> BookingStatus \<Rightarrow> failure \<Rightarrow> exn + state" where
  "updateBookingStatus s bid st details =
     (case updateWhere bid (\<lambda>b. b\<lparr>status := st\<rparr>) (bookings s) of
        None \<Rightarrow> Inl RecordNotFound
      | Some bs' \<Rightarrow>
          (case findUnique bs' bid of
             None \<Rightarrow> Inr (s\<lparr>bookings := bs'\<rparr>)
           | Some b \<Rightarrow>
               Inr (s\<lparr>bookings := bs',
                      activityLog := activityLog s @
                        [\<lparr>log_booking = dbId b, log_action = payment_status st,
                          log_error = Some details, log_txHash = None\<rparr>]\<rparr>)))"

text \<open>Check if a transaction hash has already been used (\<open>checkTransactionUsed\<close>).\<close>

definition usedBy :: "string \<Rightarrow> booking \<Rightarrow> bool" where
  "usedBy h b \<longleftrightarrow>
     (txHash b = Some h \<and> status b = CONFIRMED)
     \<or> (reservationTxHash b = Some h \<and> reservationPaid b)
     \<or> (remainingTxHash b = Some h \<and> remainingPaid b)"

definition checkTransactionUsed :: "booking list \<Rightarrow> string \<Rightarrow> bool" where
  "checkTransactionUsed bs h = (List.find (usedBy h) bs \<noteq> None)"

section \<open>Chain and token configuration (\<open>lib/config.ts\<close>)\<close>

record TokenConfig =
  address :: string
  decimals :: nat
  symbol :: string

text \<open>
  Of a chain's configuration, verification reads the name and the token table. The table
  is looked up by symbol; a symbol it does not list gives \<open>undefined\<close> (properties
  inherited from the object prototype are not modelled).
\<close>

record ChainConfig =
  chain_name :: string
  tokens :: "(string \<times> TokenConfig) list"

definition treasuryAddress :: string where
  "treasuryAddress = ''0x8895691124df317aBa77549843f257F61a7C911a''"

definition MONAD_TESTNET_USDC :: string where
  "MONAD_TESTNET_USDC = ''0xf817257fed379853cDe0fa4F97AB987181B1E5Ea''"

definition MONAD_TESTNET_USDT :: string where
  "MONAD_TESTNET_USDT = ''0x88b8E2161DEDC77EF4ab7585569D2415a1C1055D''"

definition chainConfig :: "int \<Rightarrow> ChainConfig option" where
  "chainConfig cid =
     (if cid = 10143 then
        Some \<lparr>chain_name = ''Monad Testnet'',
              tokens = [(''USDC'', \<lparr>address = MONAD_TESTNET_USDC, decimals = 6, symbol = ''USDC''\<rparr>),
                        (''USDT'', \<lparr>address = MONAD_TESTNET_USDT, decimals = 6, symbol = ''USDT''\<rparr>)]\<rparr>
      else None)"

section \<open>The chain reader and the other collaborators\<close>

datatype receipt_status = success | reverted

text \<open>An event log of a receipt: emitting contract, topics, data.\<close>

record event =
  ev_address :: string
  ev_topics :: "string list"
  ev_data :: string

record receipt =
  rc_status :: receipt_status
  rc_blockNumber :: nat
  rc_gasUsed :: nat
  logs :: "event list"

record transaction =
  tx_from :: string
  gasPrice :: "nat option"

datatype receipt_reply = ReceiptThrows | ReceiptNull | ReceiptFound receipt

text \<open>
  What the code calls but does not define. \<open>getTransactionReceipt\<close> and
  \<open>getTransaction\<close> are the node's answers, indexed by the attempt (the value of
  \<open>retryCount\<close>) and the hash; \<open>None\<close> is a thrown error. The client that
  \<open>lib/web3-client.ts\<close> creates is the library's public client, which throws when the
  node has no receipt for the hash (\<open>ReceiptThrows\<close>); the code also tests the result
  for null (\<open>ReceiptNull\<close>), so both replies are modelled. \<open>parseUnits\<close> is the
  library function that turns a decimal amount into base units, scaling it by
  \<open>10 ^ decimals\<close> and rounding what does not fit (\<open>None\<close>: it throws).
  \<open>sendMail\<close> tells whether the mailer delivers a message (\<open>False\<close>: it throws).
  \<open>clientReady\<close> tells whether \<open>createPublicClient\<close> succeeded when
  \<open>lib/web3-client.ts\<close> was loaded, \<open>now\<close> is the clock.
\<close>

record env =
  clientReady :: bool
  getTransactionReceipt :: "nat \<Rightarrow> string \<Rightarrow> receipt_reply"
  getTransaction :: "nat \<Rightarrow> string \<Rightarrow> transaction option"
  parseUnits :: "rat \<Rightarrow> nat \<Rightarrow> int option"
  sendMail :: "email \<Rightarrow> bool"
  now :: nat

text \<open>\<open>getPublicClient(chainId)\<close> is not null: only the Monad testnet client exists.\<close>

definition getPublicClient :: "env \<Rightarrow> int \<Rightarrow> bool" where
  "getPublicClient e cid \<longleftrightarrow> cid = 10143 \<and> clientReady e"

section \<open>JavaScript string and number helpers\<close>

text \<open>\<open>a || d\<close> on a nullable string: the empty string is falsy too.\<close>

definition orElse :: "string option \<Rightarrow> string \<Rightarrow> string" where
  "orElse a d = (case a of None \<Rightarrow> d | Some x \<Rightarrow> if x = [] then d else x)"

text \<open>\<open>!n\<close> on a nullable number.\<close>

definition falsyNum :: "rat option \<Rightarrow> bool" where
  "falsyNum n \<longleftrightarrow> n = None \<or> n = Some 0"

definition truthyStr :: "string option \<Rightarrow> bool" where
  "truthyStr a \<longleftrightarrow> (case a of None \<Rightarrow> False | Some x \<Rightarrow> x \<noteq> [])"

text \<open>\<open>toLowerCase\<close> on ASCII text (addresses are hexadecimal).\<close>

definition lowerChar :: "char \<Rightarrow> char" where
  "lowerChar c =
     (case map_of (zip ''ABCDEFGHIJKLMNOPQRSTUVWXYZ'' ''abcdefghijklmnopqrstuvwxyz'') c of
        None \<Rightarrow> c | Some l \<Rightarrow> l)"

definition toLowerCase :: "string \<Rightarrow> string" where
  "toLowerCase x = map lowerChar x"

definition hexDigit :: "char \<Rightarrow> nat option" where
  "hexDigit c =
     map_of (zip ''0123456789abcdefABCDEF''
       [0, 1, 2, 3, 4, 5, 6, 7, 8, 9, 10, 11, 12, 13, 14, 15, 10, 11, 12, 13, 14, 15]) c"

fun hexValue :: "nat \<Rightarrow> string \<Rightarrow> nat option" where
  "hexValue acc [] = Some acc"
| "hexValue acc (c # cs) =
     (case hexDigit c of None \<Rightarrow> None | Some d \<Rightarrow> hexValue (16 * acc + d) cs)"

text \<open>
  \<open>BigInt(log.data)\<close>: the data of a log is a \<open>0x\<close>-prefixed hexadecimal string (the
  library's type \<open>Hex\<close>); it is read as an unsigned integer, and \<open>BigInt\<close> throws a
  SyntaxError (\<open>None\<close>) when no digit follows the prefix or a character is not a
  hexadecimal digit.
\<close>

definition BigInt :: "string \<Rightarrow> nat option" where
  "BigInt d =
     (if take 2 d = ''0x'' \<and> drop 2 d \<noteq> [] then hexValue 0 (drop 2 d) else None)"

section \<open>Verification (\<open>lib/verification.ts\<close>)\<close>

subsection \<open>Expected amount and token\<close>

datatype resolution =
  AlreadyVerified                     \<comment> \<open>the early \<open>return\<close> of a phase\<close>
  | Expected bool "rat option" string \<comment> \<open>\<open>isReservationPayment\<close>, \<open>expectedAmount\<close>, \<open>paymentToken\<close>\<close>

definition isReservationPayment :: "booking \<Rightarrow> bool \<Rightarrow> bool" where
  "isReservationPayment b isRemainingPayment \<longleftrightarrow>
     requiresReservation b \<and> \<not> reservationPaid b \<and> \<not> isRemainingPayment"

text \<open>Step 2 of \<open>verifyPayment\<close>; \<open>Inl\<close> is the thrown error.\<close>

definition resolveExpected :: "booking \<Rightarrow> bool \<Rightarrow> exn + resolution" where
  "resolveExpected b isRemainingPayment =
     (if isReservationPayment b isRemainingPayment then
        (if status b = RESERVED \<or> reservationPaid b then Inr AlreadyVerified
         else Inr (Expected True (reservationAmount b)
                     (orElse (reservationToken b) (orElse (paymentToken b) ''USDC''))))
      else if isRemainingPayment then
        (if \<not> reservationPaid b then Inl ReservationNotPaidYet
         else if status b = CONFIRMED \<or> remainingPaid b then Inr AlreadyVerified
         else Inr (Expected False (remainingAmount b)
                     (orElse (remainingToken b) (orElse (paymentToken b) ''USDC''))))
      else
        (if status b = CONFIRMED then Inr AlreadyVerified
         else Inr (Expected False (paymentAmount b) (orElse (paymentToken b) ''USDC''))))"

subsection \<open>Transfer logs\<close>

definition TRANSFER_TOPIC :: string where
  "TRANSFER_TOPIC = ''0xddf252ad1be2c89b69c2b068fc378daa952ba7f163c4a11628f55a4df523b3ef''"

text \<open>The filter of step 8: emitting contract and first topic.\<close>

definition isTransferLog :: "string \<Rightarrow> event \<Rightarrow> bool" where
  "isTransferLog tokenAddressLower l \<longleftrightarrow>
     toLowerCase (ev_address l) = tokenAddressLower
     \<and> (case ev_topics l of [] \<Rightarrow> False | t # _ \<Rightarrow> t = TRANSFER_TOPIC)"

text \<open>\<open>`0x${log.topics[2]?.slice(26)}`\<close>; a missing topic prints as \<open>undefined\<close>.\<close>

definition toAddress :: "event \<Rightarrow> string" where
  "toAddress l =
     ''0x'' @ (if 2 < length (ev_topics l) then drop 26 (ev_topics l ! 2) else ''undefined'')"

definition toTreasury :: "event \<Rightarrow> bool" where
  "toTreasury l \<longleftrightarrow> toLowerCase (toAddress l) = toLowerCase treasuryAddress"

subsection \<open>Steps 6 to 9: the receipt against the expectation\<close>

text \<open>
  \<open>Inl\<close>: an error is thrown; \<open>Inr (Some f)\<close>: the terminal failure \<open>f\<close>;
  \<open>Inr None\<close>: the first transfer to the treasury carries the expected value.
\<close>

definition checkReceipt :: "env \<Rightarrow> int \<Rightarrow> rat \<Rightarrow> string \<Rightarrow> receipt \<Rightarrow> exn + failure option" where
  "checkReceipt e cid expectedAmount tok r =
     (if rc_status r \<noteq> success then Inr (Some TransactionFailedOnChain)
      else case chainConfig cid of
        None \<Rightarrow> Inl (ChainNotConfigured cid)
      | Some chain \<Rightarrow>
         (case map_of (tokens chain) tok of
            None \<Rightarrow> Inl (TokenNotConfigured tok cid)
          | Some tokenInfo \<Rightarrow>
             (case parseUnits e expectedAmount (decimals tokenInfo) of
                None \<Rightarrow> Inl ParseUnitsError
              | Some expectedBaseUnits \<Rightarrow>
                 (let transferLogs = filter (isTransferLog (toLowerCase (address tokenInfo))) (logs r)
                  in if transferLogs = [] then Inr (Some NoTransferEvents)
                     else case List.find toTreasury transferLogs of
                       None \<Rightarrow> Inr (Some WrongTreasury)
                     | Some l \<Rightarrow>
                        (case BigInt (ev_data l) of
                           None \<Rightarrow> Inl BigIntSyntaxError
                         | Some transferredValue \<Rightarrow>
                            if int transferredValue \<noteq> expectedBaseUnits
                            then Inr (Some (PaymentAmountMismatch transferredValue expectedBaseUnits))
                            else Inr None)))))"

subsection \<open>The success path\<close>

text \<open>
  The confirmation mail, sent when the booking has a user email and a stay; a mailer
  error is caught, and written to the activity log on the reservation path only.
\<close>

definition sendTo :: "env \<Rightarrow> booking \<Rightarrow> email_kind \<Rightarrow> string \<Rightarrow> rat option \<Rightarrow> bool \<Rightarrow> state \<Rightarrow> state" where
  "sendTo e b k h amt logFailure s =
     (case userEmail b of
        None \<Rightarrow> s
      | Some rcpt \<Rightarrow>
          if rcpt = [] \<or> \<not> hasStay b then s
          else (let m = \<lparr>kind = k, recipientEmail = rcpt, mail_bookingId = bookingId b,
                          mail_txHash = h, mail_amount = amt\<rparr>
                in if sendMail e m then s\<lparr>outbox := outbox s @ [m]\<rparr>
                   else if logFailure
                     then s\<lparr>activityLog := activityLog s @
                            [\<lparr>log_booking = dbId b, log_action = email_failed,
                              log_error = None, log_txHash = None\<rparr>]\<rparr>
                     else s))"

definition logPaid :: "booking \<Rightarrow> log_action \<Rightarrow> string \<Rightarrow> state \<Rightarrow> state" where
  "logPaid b a h s =
     s\<lparr>activityLog := activityLog s @
         [\<lparr>log_booking = dbId b, log_action = a, log_error = None, log_txHash = Some h\<rparr>]\<rparr>"

text \<open>The \<open>data\<close> written by the three \<open>db.booking.update\<close> calls of the success path.\<close>

definition reservedData :: "env \<Rightarrow> string \<Rightarrow> int \<Rightarrow> string \<Rightarrow> receipt \<Rightarrow> transaction \<Rightarrow> booking \<Rightarrow> booking" where
  "reservedData e h cid tok r tx x =
     x\<lparr>status := RESERVED, reservationPaid := True, reservationTxHash := Some h,
       reservationPaidAt := Some (now e), reservationChainId := Some cid,
       reservationToken := Some tok, blockNumber := Some (rc_blockNumber r),
       senderAddress := Some (tx_from tx), receiverAddress := Some treasuryAddress,
       gasUsed := Some (rc_gasUsed r), gasFeeUSD := Some 0\<rparr>"

definition remainingData :: "env \<Rightarrow> string \<Rightarrow> int \<Rightarrow> string \<Rightarrow> rat \<Rightarrow> booking \<Rightarrow> booking" where
  "remainingData e h cid tok paidTotal x =
     x\<lparr>status := CONFIRMED, remainingPaid := True, remainingTxHash := Some h,
       remainingPaidAt := Some (now e), remainingChainId := Some cid,
       remainingToken := Some tok, confirmedAt := Some (now e), totalPaid := Some paidTotal\<rparr>"

definition fullData :: "env \<Rightarrow> rat option \<Rightarrow> receipt \<Rightarrow> transaction \<Rightarrow> booking \<Rightarrow> booking" where
  "fullData e paid r tx x =
     x\<lparr>status := CONFIRMED, confirmedAt := Some (now e),
       blockNumber := Some (rc_blockNumber r), senderAddress := Some (tx_from tx),
       receiverAddress := Some treasuryAddress, gasUsed := Some (rc_gasUsed r),
       gasFeeUSD := Some 0, totalPaid := paid\<rparr>"

text \<open>
  The update of the success path, the activity log entry and the mail. \<open>b\<close> is the
  booking as read at the start of the attempt. The update is keyed by \<open>bookingId\<close> alone.
\<close>

definition confirmPayment ::
  "env \<Rightarrow> state \<Rightarrow> booking \<Rightarrow> string \<Rightarrow> string \<Rightarrow> int \<Rightarrow> bool \<Rightarrow> bool \<Rightarrow> rat \<Rightarrow> string
    \<Rightarrow> receipt \<Rightarrow> transaction \<Rightarrow> exn + state" where
  "confirmPayment e s b bid h cid isReservation isRemainingPayment expectedAmount tok r tx =
     (if isReservation then
        (case updateWhere bid (reservedData e h cid tok r tx) (bookings s) of
           None \<Rightarrow> Inl RecordNotFound
         | Some bs' \<Rightarrow>
             Inr (sendTo e b ReservationConfirmedEmail h (Some expectedAmount) True
                    (logPaid b reservation_paid h (s\<lparr>bookings := bs'\<rparr>))))
      else if isRemainingPayment then
        (let paidTotal = (case reservationAmount b of None \<Rightarrow> 0 | Some a \<Rightarrow> a) + expectedAmount
         in case updateWhere bid (remainingData e h cid tok paidTotal) (bookings s) of
              None \<Rightarrow> Inl RecordNotFound
            | Some bs' \<Rightarrow>
                Inr (sendTo e b ConfirmationEmail h (Some paidTotal) False
                       (logPaid b remaining_payment_confirmed h (s\<lparr>bookings := bs'\<rparr>))))
      else
        (case updateWhere bid (fullData e (paymentAmount b) r tx) (bookings s) of
           None \<Rightarrow> Inl RecordNotFound
         | Some bs' \<Rightarrow>
             Inr (sendTo e b ConfirmationEmail h (paymentAmount b) False
                    (logPaid b payment_confirmed h (s\<lparr>bookings := bs'\<rparr>)))))"

subsection \<open>One attempt: the body of the \<open>try\<close> block\<close>

datatype attempt =
  Return state        \<comment> \<open>\<open>return\<close>, with the store as the attempt leaves it\<close>
  | ReceiptMissing    \<comment> \<open>the receipt is null; nothing was written\<close>
  | Throw exn         \<comment> \<open>an error reaches the \<open>catch\<close> block; nothing was written\<close>

definition failWith :: "state \<Rightarrow> string \<Rightarrow> failure \<Rightarrow> attempt" where
  "failWith s bid f =
     (case updateBookingStatus s bid FAILED f of Inl ex \<Rightarrow> Throw ex | Inr s' \<Rightarrow> Return s')"

definition tryBody :: "env \<Rightarrow> state \<Rightarrow> string \<Rightarrow> string \<Rightarrow> int \<Rightarrow> bool \<Rightarrow> nat \<Rightarrow> attempt" where
  "tryBody e s bid h cid isRemainingPayment retryCount =
     (case findUnique (bookings s) bid of
        None \<Rightarrow> Throw BookingNotFound
      | Some b \<Rightarrow>
         (case resolveExpected b isRemainingPayment of
            Inl ex \<Rightarrow> Throw ex
          | Inr AlreadyVerified \<Rightarrow> Return s
          | Inr (Expected isReservation amount tok) \<Rightarrow>
             (if tok = [] \<or> falsyNum amount then failWith s bid PaymentDetailsNotLocked
              else case amount of
                None \<Rightarrow> failWith s bid PaymentDetailsNotLocked
              | Some expectedAmount \<Rightarrow>
                 if \<not> getPublicClient e cid then Throw (NoClientConfigured cid)
                 else (case getTransactionReceipt e retryCount h of
                    ReceiptThrows \<Rightarrow> Throw ReceiptFetchError
                  | ReceiptNull \<Rightarrow> ReceiptMissing
                  | ReceiptFound r \<Rightarrow>
                     (case checkReceipt e cid expectedAmount tok r of
                        Inl ex \<Rightarrow> Throw ex
                      | Inr (Some f) \<Rightarrow> failWith s bid f
                      | Inr None \<Rightarrow>
                         (case getTransaction e retryCount h of
                            None \<Rightarrow> Throw TransactionFetchError
                          | Some tx \<Rightarrow>
                             (case confirmPayment e s b bid h cid isReservation
                                     isRemainingPayment expectedAmount tok r tx of
                                Inl ex \<Rightarrow> Throw ex
                              | Inr s' \<Rightarrow> Return s')))))))"

subsection \<open>The retry loop\<close>

datatype iter =
  Exit "exn + state"  \<comment> \<open>\<open>verifyPayment\<close> returns (\<open>Inr\<close>) or rejects (\<open>Inl\<close>)\<close>
  | Again nat state   \<comment> \<open>back to the loop condition, with the new \<open>retryCount\<close>\<close>

text \<open>The \<open>catch\<close> block, entered with \<open>retryCount\<close> as it is when the error is thrown.\<close>

definition catchBlock :: "state \<Rightarrow> string \<Rightarrow> nat \<Rightarrow> nat \<Rightarrow> exn \<Rightarrow> iter" where
  "catchBlock s bid maxRetries retryCount ex =
     (let retryCount' = retryCount + 1
      in if retryCount' \<ge> maxRetries then
           (case updateBookingStatus s bid FAILED (AttemptsFailed ex retryCount') of
              Inl ex' \<Rightarrow> Exit (Inl ex')
            | Inr s' \<Rightarrow> Again retryCount' s')
         else Again retryCount' s)"

definition iteration :: "env \<Rightarrow> state \<Rightarrow> string \<Rightarrow> string \<Rightarrow> int \<Rightarrow> bool \<Rightarrow> nat \<Rightarrow> nat \<Rightarrow> iter" where
  "iteration e s bid h cid isRemainingPayment maxRetries retryCount =
     (case tryBody e s bid h cid isRemainingPayment retryCount of
        Return s' \<Rightarrow> Exit (Inr s')
      | Throw ex \<Rightarrow> catchBlock s bid maxRetries retryCount ex
      | ReceiptMissing \<Rightarrow>
          (let retryCount' = retryCount + 1
           in if retryCount' < maxRetries then Again retryCount' s
              else (case updateBookingStatus s bid FAILED TransactionTimeout of
                      Inl ex \<Rightarrow> catchBlock s bid maxRetries retryCount' ex
                    | Inr s' \<Rightarrow> Exit (Inr s'))))"

function verifyLoop ::
  "env \<Rightarrow> string \<Rightarrow> string \<Rightarrow> int \<Rightarrow> bool \<Rightarrow> nat \<Rightarrow> nat \<Rightarrow> state \<Rightarrow> exn + state" where
  "verifyLoop e bid h cid isRemainingPayment maxRetries retryCount s =
     (if retryCount < maxRetries then
        (case iteration e s bid h cid isRemainingPayment maxRetries retryCount of
           Exit res \<Rightarrow> res
         | Again retryCount' s' \<Rightarrow>
             verifyLoop e bid h cid isRemainingPayment maxRetries retryCount' s')
      else Inr s)"
  by pat_completeness auto
termination
proof (relation "measure (\<lambda>(e, bid, h, cid, isRemainingPayment, maxRetries, retryCount, s).
                    maxRetries - retryCount)")
  show "wf (measure (\<lambda>(e, bid, h, cid, isRemainingPayment, maxRetries, retryCount, s).
                    maxRetries - retryCount))"
    by simp
next
  fix e :: env and bid h :: string and cid :: int and isRemainingPayment :: bool
    and maxRetries retryCount retryCount' :: nat and s s' :: state
  assume lt: "retryCount < maxRetries"
    and again: "iteration e s bid h cid isRemainingPayment maxRetries retryCount
                  = Again retryCount' s'"
  from again have "retryCount < retryCount'"
    by (auto simp: iteration_def catchBlock_def Let_def
             split: attempt.splits sum.splits if_splits)
  with lt show "((e, bid, h, cid, isRemainingPayment, maxRetries, retryCount', s'),
                 (e, bid, h, cid, isRemainingPayment, maxRetries, retryCount, s))
        \<in> measure (\<lambda>(e, bid, h, cid, isRemainingPayment, maxRetries, retryCount, s).
                    maxRetries - retryCount)"
    by simp
qed

text \<open>\<open>verifyPayment(bookingId, txHash, chainId, isRemainingPayment, maxRetries, retryDelayMs)\<close>;
  the delay is a sleep between attempts and has no effect on the store.\<close>

definition verifyPayment ::
  "env \<Rightarrow> state \<Rightarrow> string \<Rightarrow> string \<Rightarrow> int \<Rightarrow> bool \<Rightarrow> nat \<Rightarrow> exn + state" where
  "verifyPayment e s bid h cid isRemainingPayment maxRetries =
     verifyLoop e bid h cid isRemainingPayment maxRetries 0 s"

section \<open>Submission (\<open>app/api/payments/submit-payment/route.ts\<close>)\<close>

text \<open>The JSON body; a missing field is \<open>None\<close>, \<open>isRemainingPayment\<close> defaults to false.\<close>

record request =
  req_bookingId :: "string option"
  req_txHash :: "string option"
  req_chainId :: "int option"
  req_paymentToken :: "string option"
  req_isRemainingPayment :: bool

datatype api_error =
  MissingRequiredFields
  | InvalidTransactionHashFormat
  | TRANSACTION_ALREADY_USED
  | BookingNotFound404
  | ReservationNotPaid               \<comment> \<open>\<open>'Cannot submit remaining payment - reservation not paid yet'\<close>\<close>
  | CannotSubmitRemaining BookingStatus    \<comment> \<open>with \<open>currentStatus\<close>\<close>
  | RemainingAlreadyProcessed
  | CannotSubmitReservation BookingStatus  \<comment> \<open>with \<open>currentStatus\<close>\<close>
  | ReservationAlreadyPaid
  | CannotSubmitPayment BookingStatus      \<comment> \<open>with \<open>currentStatus\<close>\<close>
  | PaymentTokenMismatch string string     \<comment> \<open>expected, got\<close>
  | PaymentDetailsNotLockedError
  | InternalServerError

datatype payment_type = remaining | reservation | full

datatype reply =
  Rejected nat api_error  \<comment> \<open>HTTP status and error\<close>
  | Accepted payment_type \<comment> \<open>HTTP 200, \<open>status: 'verifying'\<close>\<close>

text \<open>The background call \<open>verifyPayment(bookingId, txHash, chainId, isRemainingPayment, 10, 3000)\<close>.\<close>

record job =
  job_bookingId :: string
  job_txHash :: string
  job_chainId :: int
  job_isRemainingPayment :: bool
  job_maxRetries :: nat
  job_retryDelayMs :: nat

text \<open>\<open>/^0x[a-fA-F0-9]{64}$/.test(txHash)\<close>.\<close>

definition validTxHash :: "string \<Rightarrow> bool" where
  "validTxHash h \<longleftrightarrow>
     length h = 66 \<and> take 2 h = ''0x'' \<and> list_all (\<lambda>c. hexDigit c \<noteq> None) (drop 2 h)"

text \<open>The status and token guards of step 4; \<open>None\<close> lets the submission through.\<close>

definition guards :: "booking \<Rightarrow> bool \<Rightarrow> string \<Rightarrow> reply option" where
  "guards b isRemainingPayment tok =
     (if requiresReservation b then
        (if isRemainingPayment then
           (if \<not> reservationPaid b then Some (Rejected 400 ReservationNotPaid)
            else if status b \<noteq> RESERVED then Some (Rejected 409 (CannotSubmitRemaining (status b)))
            else if remainingPaid b then Some (Rejected 409 RemainingAlreadyProcessed)
            else if truthyStr (remainingToken b) \<and> remainingToken b \<noteq> Some tok
              then Some (Rejected 400 (PaymentTokenMismatch (orElse (remainingToken b) []) tok))
            else None)
         else
           (if status b \<noteq> PENDING then Some (Rejected 409 (CannotSubmitReservation (status b)))
            else if reservationPaid b then Some (Rejected 409 ReservationAlreadyPaid)
            else if truthyStr (reservationToken b) \<and> reservationToken b \<noteq> Some tok
              then Some (Rejected 400 (PaymentTokenMismatch (orElse (reservationToken b) []) tok))
            else None))
      else
        (if status b \<noteq> PENDING then Some (Rejected 409 (CannotSubmitPayment (status b)))
         else if \<not> truthyStr (paymentToken b) \<or> falsyNum (paymentAmount b)
           then Some (Rejected 400 PaymentDetailsNotLockedError)
         else None))"

text \<open>Step 5: the hash is saved to the booking at once, in the column of the phase.\<close>

definition recordHash :: "bool \<Rightarrow> bool \<Rightarrow> string \<Rightarrow> int \<Rightarrow> booking \<Rightarrow> booking" where
  "recordHash isRemainingPayment requiresRes h cid x =
     (if isRemainingPayment then x\<lparr>chainId := Some cid, remainingTxHash := Some h\<rparr>
      else if requiresRes then x\<lparr>chainId := Some cid, reservationTxHash := Some h\<rparr>
      else x\<lparr>chainId := Some cid, txHash := Some h\<rparr>)"

text \<open>
  \<open>POST\<close>: the reply, the store afterwards, and the verification started in the
  background (not awaited), if any.
\<close>

definition submitPayment :: "state \<Rightarrow> request \<Rightarrow> reply \<times> state \<times> job option" where
  "submitPayment s rq =
     (case (req_bookingId rq, req_txHash rq, req_chainId rq, req_paymentToken rq) of
        (Some bid, Some h, Some cid, Some tok) \<Rightarrow>
          (if bid = [] \<or> h = [] \<or> cid = 0 \<or> tok = []
             then (Rejected 400 MissingRequiredFields, s, None)
           else if \<not> validTxHash h then (Rejected 400 InvalidTransactionHashFormat, s, None)
           else if checkTransactionUsed (bookings s) h
             then (Rejected 409 TRANSACTION_ALREADY_USED, s, None)
           else case findUnique (bookings s) bid of
             None \<Rightarrow> (Rejected 404 BookingNotFound404, s, None)
           | Some b \<Rightarrow>
              (case guards b (req_isRemainingPayment rq) tok of
                 Some rejection \<Rightarrow> (rejection, s, None)
               | None \<Rightarrow>
                  (case updateWhere bid
                          (recordHash (req_isRemainingPayment rq) (requiresReservation b) h cid)
                          (bookings s) of
                     None \<Rightarrow> (Rejected 500 InternalServerError, s, None)
                   | Some bs' \<Rightarrow>
                      (Accepted (if req_isRemainingPayment rq then remaining
                                 else if requiresReservation b then reservation else full),
                       s\<lparr>bookings := bs',
                         activityLog := activityLog s @
                           [\<lparr>log_booking = dbId b,
                             log_action = (if req_isRemainingPayment rq
                                           then remaining_payment_submitted else payment_submitted),
                             log_error = None, log_txHash = Some h\<rparr>]\<rparr>,
                       Some \<lparr>job_bookingId = bid, job_txHash = h, job_chainId = cid,
                             job_isRemainingPayment = req_isRemainingPayment rq,
                             job_maxRetries = 10, job_retryDelayMs = 3000\<rparr>))))
      | _ \<Rightarrow> (Rejected 400 MissingRequiredFields, s, None))"

text \<open>Running a background verification on the store as it is when the job runs.\<close>

definition runJob :: "env \<Rightarrow> job \<Rightarrow> state \<Rightarrow> exn + state" where
  "runJob e j s =
     verifyPayment e s (job_bookingId j) (job_txHash j) (job_chainId j)
       (job_isRemainingPayment j) (job_maxRetries j)"

section \<open>Notation for the statements\<close>

text \<open>The store after \<open>updateBookingStatus\<close> has marked row \<open>i\<close>, holding \<open>b\<close>, as failed.\<close>

abbreviation failedStore :: "state \<Rightarrow> nat \<Rightarrow> booking \<Rightarrow> failure \<Rightarrow> state" where
  "failedStore s i b f \<equiv>
     s\<lparr>bookings := (bookings s)[i := b\<lparr>status := FAILED\<rparr>],
       activityLog := activityLog s @
         [\<lparr>log_booking = dbId b, log_action = payment_status FAILED,
           log_error = Some f, log_txHash = None\<rparr>]\<rparr>"

section \<open>Sample data\<close>

text \<open>A booking row as the application form creates it: waitlisted, nothing locked or paid.\<close>

definition newBooking :: "string \<Rightarrow> booking" where
  "newBooking bid =
     \<lparr>dbId = bid, bookingId = bid, status = WAITLISTED, requiresReservation = False,
      paymentToken = None, paymentAmount = None, txHash = None, chainId = None,
      reservationAmount = None, reservationToken = None, reservationTxHash = None,
      reservationPaid = False, reservationPaidAt = None, reservationChainId = None,
      remainingAmount = None, remainingToken = None, remainingTxHash = None,
      remainingPaid = False, remainingPaidAt = None, remainingChainId = None,
      confirmedAt = None, blockNumber = None, senderAddress = None, receiverAddress = None,
      gasUsed = None, gasFeeUSD = None, totalPaid = None, userEmail = None, hasStay = False\<rparr>"

text \<open>A well-formed transaction hash.\<close>

definition sampleTx :: string where
  "sampleTx = ''0x5c504ed432cb51138bcf09aa5e8a410dd4a1e204ef84bfed1be16dfba1b22060''"

text \<open>A store holding the given bookings and nothing else.\<close>

definition storeOf :: "booking list \<Rightarrow> state" where
  "storeOf bs = \<lparr>bookings = bs, activityLog = [], outbox = []\<rparr>"

text \<open>A submission with every field present.\<close>

definition submission :: "string \<Rightarrow> string \<Rightarrow> string \<Rightarrow> bool \<Rightarrow> request" where
  "submission bid h tok isRemainingPayment =
     \<lparr>req_bookingId = Some bid, req_txHash = Some h, req_chainId = Some 10143,
      req_paymentToken = Some tok, req_isRemainingPayment = isRemainingPayment\<rparr>"

text \<open>
  A node that answers every receipt request as given, knows the transaction, and
  collaborators that work: \<open>parseUnits\<close> scales exactly, mail is delivered.
\<close>

definition sampleEnv :: "(nat \<Rightarrow> receipt_reply) \<Rightarrow> env" where
  "sampleEnv replies =
     \<lparr>clientReady = True,
      getTransactionReceipt = (\<lambda>k _. replies k),
      getTransaction = (\<lambda>_ _. Some \<lparr>tx_from = ''0x70997970c51812dc3a010c7d01b50e0d17dc79c8'',
                                       gasPrice = Some 52\<rparr>),
      parseUnits = (\<lambda>a d. Some \<lfloor>a * 10 ^ d\<rfloor>),
      sendMail = (\<lambda>_. True),
      now = 1700000000\<rparr>"

text \<open>A successful receipt with one log: a transfer of the given token contract to the
  given recipient topic, with the given data.\<close>

definition transferReceipt :: "string \<Rightarrow> string \<Rightarrow> string \<Rightarrow> receipt" where
  "transferReceipt token recipientTopic d =
     \<lparr>rc_status = success, rc_blockNumber = 4242, rc_gasUsed = 51234,
      logs = [\<lparr>ev_address = token,
                ev_topics = [TRANSFER_TOPIC,
                  ''0x00000000000000000000000070997970c51812dc3a010c7d01b50e0d17dc79c8'',
                  recipientTopic],
                ev_data = d\<rparr>]\<rparr>"

definition usdcContract :: string where
  "usdcContract = ''0xf817257fed379853cde0fa4f97ab987181b1e5ea''"

definition treasuryTopic :: string where
  "treasuryTopic = ''0x0000000000000000000000008895691124df317aba77549843f257f61a7c911a''"

definition strangerTopic :: string where
  "strangerTopic = ''0x0000000000000000000000003c44cdddb6a900fa2b585dd299e03d12fa4293bc''"

text \<open>Log data for 30000000 and for 29999999 base units.\<close>

definition data30 :: string where
  "data30 = ''0x0000000000000000000000000000000000000000000000000000000001c9c380''"

definition data30less1 :: string where
  "data30less1 = ''0x0000000000000000000000000000000000000000000000000000000001c9c37f''"

text \<open>A reservation booking awaiting its reservation payment of 30 USDC.\<close>

definition reservation30 :: booking where
  "reservation30 = (newBooking ''BK-1'')\<lparr>status := PENDING, requiresReservation := True,
      reservationAmount := Some 30, reservationToken := Some ''USDC'',
      remainingAmount := Some 70\<rparr>"

text \<open>A full-payment booking locked to a token (DAI) that no chain configures.\<close>

definition dai30 :: booking where
  "dai30 = (newBooking ''BK-1'')\<lparr>status := PENDING, paymentAmount := Some 30,
      paymentToken := Some ''DAI''\<rparr>"

text \<open>The receipt of a transfer of 30 USDC to the treasury, and a node that has it.\<close>

definition sampleReceipt :: receipt where
  "sampleReceipt = transferReceipt usdcContract treasuryTopic data30"

definition sampleNode :: env where
  "sampleNode = sampleEnv (\<lambda>_. ReceiptFound sampleReceipt)"

text \<open>Two full-payment bookings, each locked to 30 USDC and awaiting payment.\<close>

definition fullA :: booking where
  "fullA = (newBooking ''BK-A'')\<lparr>status := PENDING, paymentToken := Some ''USDC'',
      paymentAmount := Some 30\<rparr>"

definition fullB :: booking where
  "fullB = (newBooking ''BK-B'')\<lparr>status := PENDING, paymentToken := Some ''USDC'',
      paymentAmount := Some 30\<rparr>"

text \<open>The background job that a submission of the sample hash starts for a booking.\<close>

definition jobFor :: "string \<Rightarrow> job" where
  "jobFor bid =
     \<lparr>job_bookingId = bid, job_txHash = sampleTx, job_chainId = 10143,
      job_isRemainingPayment = False, job_maxRetries = 10, job_retryDelayMs = 3000\<rparr>"

text \<open>A row as submission and a successful full-payment verification on the sample node
  leave it.\<close>

definition submittedRow :: "booking \<Rightarrow> booking" where
  "submittedRow b = b\<lparr>chainId := Some 10143, txHash := Some sampleTx\<rparr>"

definition confirmedRow :: "booking \<Rightarrow> booking" where
  "confirmedRow b =
     b\<lparr>status := CONFIRMED, confirmedAt := Some 1700000000, blockNumber := Some 4242,
       senderAddress := Some ''0x70997970c51812dc3a010c7d01b50e0d17dc79c8'',
       receiverAddress := Some treasuryAddress, gasUsed := Some 51234,
       gasFeeUSD := Some 0, totalPaid := Some 30\<rparr>"

definition submittedEntry :: "string \<Rightarrow> log_entry" where
  "submittedEntry pk =
     \<lparr>log_booking = pk, log_action = payment_submitted, log_error = None,
      log_txHash = Some sampleTx\<rparr>"

definition confirmedEntry :: "string \<Rightarrow> log_entry" where
  "confirmedEntry pk =
     \<lparr>log_booking = pk, log_action = payment_confirmed, log_error = None,
      log_txHash = Some sampleTx\<rparr>"

text \<open>A reservation booking with user and stay, its payment locked to the reservation
  amount, and the row as a successful reservation verification on the sample node leaves
  it.\<close>

definition lockedReservation30 :: booking where
  "lockedReservation30 = (newBooking ''BK-1'')\<lparr>status := PENDING, requiresReservation := True,
      paymentToken := Some ''USDC'', paymentAmount := Some 30,
      reservationAmount := Some 30, reservationToken := Some ''USDC'',
      remainingAmount := Some 70, userEmail := Some ''guest@example.com'',
      hasStay := True\<rparr>"

definition reservedRow :: "booking \<Rightarrow> booking" where
  "reservedRow b =
     b\<lparr>status := RESERVED, reservationPaid := True, reservationTxHash := Some sampleTx,
       reservationPaidAt := Some 1700000000, reservationChainId := Some 10143,
       reservationToken := Some ''USDC'', blockNumber := Some 4242,
       senderAddress := Some ''0x70997970c51812dc3a010c7d01b50e0d17dc79c8'',
       receiverAddress := Some treasuryAddress, gasUsed := Some 51234,
       gasFeeUSD := Some 0\<rparr>"

text \<open>
  A \<open>parseUnits\<close> that rounds to the nearest base unit, as the library does for an
  amount with more fractional digits than the token has decimals.
\<close>

definition roundingUnits :: "rat \<Rightarrow> nat \<Rightarrow> int option" where
  "roundingUnits a d = Some \<lfloor>a * 10 ^ d + 1 / 2\<rfloor>"

text \<open>
  A reservation booking whose reservation is paid and whose remaining amount is the
  number that the subtraction \<open>149.99 - 30\<close> gives in floating point,
  \<open>119.99000000000001\<close>; log data for 119990000 base units; and a node that has the
  receipt of that transfer and whose \<open>parseUnits\<close> rounds.
\<close>

definition remainder119 :: booking where
  "remainder119 = (newBooking ''BK-1'')\<lparr>status := RESERVED, requiresReservation := True,
      paymentToken := Some ''USDC'', reservationAmount := Some 30,
      reservationToken := Some ''USDC'', reservationPaid := True,
      remainingAmount := Some (11999000000000001 / 100000000000000)\<rparr>"

definition data119 :: string where
  "data119 = ''0x000000000000000000000000000000000000000000000000000000000726e6f0''"

definition roundingNode :: env where
  "roundingNode =
     (sampleEnv (\<lambda>_. ReceiptFound (transferReceipt usdcContract treasuryTopic data119)))
       \<lparr>parseUnits := roundingUnits\<rparr>"

section \<open>Store access: basic facts\<close>

lemma findUnique_Some_key: "findUnique bs bid = Some b \<Longrightarrow> bookingId b = bid"
  by (induction bs) (auto simp: findUnique_def split: if_splits)

lemma updateWhere_findUnique_same:
  assumes "findUnique bs bid = Some b" and "updateWhere bid f bs = Some bs'"
    and "bookingId (f b) = bid"
  shows "findUnique bs' bid = Some (f b)"
  using assms
  by (induction bs arbitrary: bs') (auto simp: findUnique_def split: if_splits)

lemma updateWhere_row:
  "findUnique bs bid = Some b \<Longrightarrow>
   \<exists>i<length bs. bs ! i = b \<and> (\<forall>f. updateWhere bid f bs = Some (bs[i := f b]))"
proof (induction bs)
  case Nil
  then show ?case by (simp add: findUnique_def)
next
  case (Cons a bs)
  show ?case
  proof (cases "bookingId a = bid")
    case True
    with Cons.prems have "a = b" by (simp add: findUnique_def)
    with True show ?thesis by (intro exI[of _ 0]) simp
  next
    case False
    with Cons.prems have "findUnique bs bid = Some b" by (simp add: findUnique_def)
    from Cons.IH[OF this] obtain i where i: "i < length bs" "bs ! i = b"
      "\<And>f. updateWhere bid f bs = Some (bs[i := f b])" by blast
    with False show ?thesis by (intro exI[of _ "Suc i"]) simp
  qed
qed

lemma updateBookingStatus_found:
  assumes "findUnique (bookings s) bid = Some b"
  shows "\<exists>i<length (bookings s). bookings s ! i = b \<and>
           updateBookingStatus s bid st details =
             Inr (s\<lparr>bookings := (bookings s)[i := b\<lparr>status := st\<rparr>],
                    activityLog := activityLog s @
                      [\<lparr>log_booking = dbId b, log_action = payment_status st,
                        log_error = Some details, log_txHash = None\<rparr>]\<rparr>)"
proof -
  let ?f = "\<lambda>x::booking. x\<lparr>status := st\<rparr>"
  from updateWhere_row[OF assms] obtain i where i: "i < length (bookings s)"
    "bookings s ! i = b" "updateWhere bid ?f (bookings s) = Some ((bookings s)[i := ?f b])"
    by blast
  have key: "bookingId (?f b) = bid" using findUnique_Some_key[OF assms] by simp
  have "findUnique ((bookings s)[i := ?f b]) bid = Some (?f b)"
    using updateWhere_findUnique_same[OF assms i(3) key] .
  with i show ?thesis
    by (intro exI[of _ i]) (simp add: updateBookingStatus_def)
qed

section \<open>The status-update helper\<close>

text \<open>
  Claim C10. When the booking exists, \<open>updateBookingStatus\<close> succeeds whatever the
  booking's current status and other contents are (there is no expected pre-state in the
  update), and it replaces exactly one row of the table, the booking with the given
  identifier, by the same row with the \<open>status\<close> column set to the given value: the paid
  flags, the recorded transaction hashes, the amounts and every other column keep their
  values, and all other rows are unchanged. The only other effect is one activity log
  entry.
\<close>

theorem updateBookingStatus_frame:
  assumes "findUnique (bookings s) bid = Some b"
  shows "\<exists>i<length (bookings s). bookings s ! i = b \<and>
           updateBookingStatus s bid st details =
             Inr (s\<lparr>bookings := (bookings s)[i := b\<lparr>status := st\<rparr>],
                    activityLog := activityLog s @
                      [\<lparr>log_booking = dbId b, log_action = payment_status st,
                        log_error = Some details, log_txHash = None\<rparr>]\<rparr>)"
  using updateBookingStatus_found[OF assms] .

theorem updateBookingStatus_frame_witness:
  "findUnique [(newBooking ''BK-1'')\<lparr>status := RESERVED, reservationPaid := True,
                 reservationTxHash := Some ''0xabc''\<rparr>] ''BK-1''
     = Some ((newBooking ''BK-1'')\<lparr>status := RESERVED, reservationPaid := True,
                 reservationTxHash := Some ''0xabc''\<rparr>)
   \<and> updateBookingStatus
     \<lparr>bookings = [(newBooking ''BK-1'')\<lparr>status := RESERVED, reservationPaid := True,
                    reservationTxHash := Some ''0xabc''\<rparr>], activityLog = [], outbox = []\<rparr>
     ''BK-1'' FAILED WrongTreasury =
   Inr \<lparr>bookings = [(newBooking ''BK-1'')\<lparr>status := FAILED, reservationPaid := True,
                    reservationTxHash := Some ''0xabc''\<rparr>],
        activityLog = [\<lparr>log_booking = ''BK-1'', log_action = payment_status FAILED,
                         log_error = Some WrongTreasury, log_txHash = None\<rparr>], outbox = []\<rparr>"
  using updateBookingStatus_frame[of
     "\<lparr>bookings = [(newBooking ''BK-1'')\<lparr>status := RESERVED, reservationPaid := True,
                    reservationTxHash := Some ''0xabc''\<rparr>], activityLog = [], outbox = []\<rparr>"
     "''BK-1''" "(newBooking ''BK-1'')\<lparr>status := RESERVED, reservationPaid := True,
                    reservationTxHash := Some ''0xabc''\<rparr>" FAILED WrongTreasury]
  by (simp add: findUnique_def newBooking_def)

section \<open>The idempotency guard\<close>

lemma validTxHash_sampleTx: "validTxHash sampleTx"
  by (simp add: validTxHash_def sampleTx_def hexDigit_def)

lemma checkTransactionUsed_iff:
  "checkTransactionUsed bs h \<longleftrightarrow> (\<exists>b\<in>set bs. usedBy h b)"
  by (auto simp: checkTransactionUsed_def find_None_iff)

lemma submitPayment_used:
  assumes "req_txHash rq = Some h" and "checkTransactionUsed (bookings s) h"
  shows "snd (submitPayment s rq) = (s, None)"
    and "fst (submitPayment s rq) \<in>
           {Rejected 409 TRANSACTION_ALREADY_USED, Rejected 400 MissingRequiredFields,
            Rejected 400 InvalidTransactionHashFormat}"
  using assms by (auto simp: submitPayment_def split: option.splits)

text \<open>
  Claim C8. \<open>checkTransactionUsed\<close> answers true exactly when some booking holds the hash
  as its full-payment hash with status \<open>CONFIRMED\<close>, or as its reservation hash with
  \<open>reservationPaid\<close>, or as its remaining hash with \<open>remainingPaid\<close>. A submission
  carrying a hash for which it answers true is rejected with the store unchanged (no
  column of any booking is written, nothing is logged) and no verification started: by
  HTTP 409 \<open>TRANSACTION_ALREADY_USED\<close> when the body passes the field and format checks
  that precede the guard, by one of their HTTP 400 answers otherwise.
\<close>

theorem checkTransactionUsed_guard:
  "(checkTransactionUsed bs h \<longleftrightarrow>
      (\<exists>b\<in>set bs. (txHash b = Some h \<and> status b = CONFIRMED)
                  \<or> (reservationTxHash b = Some h \<and> reservationPaid b)
                  \<or> (remainingTxHash b = Some h \<and> remainingPaid b)))
   \<and> (req_txHash rq = Some h \<and> checkTransactionUsed (bookings s) h \<longrightarrow>
        snd (submitPayment s rq) = (s, None)
        \<and> fst (submitPayment s rq) \<in>
            {Rejected 409 TRANSACTION_ALREADY_USED, Rejected 400 MissingRequiredFields,
             Rejected 400 InvalidTransactionHashFormat}
        \<and> (validTxHash h \<and> req_bookingId rq = Some bid \<and> bid \<noteq> []
             \<and> req_chainId rq = Some cid \<and> cid \<noteq> 0
             \<and> req_paymentToken rq = Some tok \<and> tok \<noteq> [] \<longrightarrow>
           submitPayment s rq = (Rejected 409 TRANSACTION_ALREADY_USED, s, None)))"
proof (intro conjI impI)
  show "checkTransactionUsed bs h \<longleftrightarrow>
      (\<exists>b\<in>set bs. (txHash b = Some h \<and> status b = CONFIRMED)
                  \<or> (reservationTxHash b = Some h \<and> reservationPaid b)
                  \<or> (remainingTxHash b = Some h \<and> remainingPaid b))"
    by (simp add: checkTransactionUsed_iff usedBy_def)
next
  assume "req_txHash rq = Some h \<and> checkTransactionUsed (bookings s) h"
  then show "snd (submitPayment s rq) = (s, None)" using submitPayment_used(1) by blast
next
  assume "req_txHash rq = Some h \<and> checkTransactionUsed (bookings s) h"
  then show "fst (submitPayment s rq) \<in>
            {Rejected 409 TRANSACTION_ALREADY_USED, Rejected 400 MissingRequiredFields,
             Rejected 400 InvalidTransactionHashFormat}" using submitPayment_used(2) by blast
next
  assume a: "req_txHash rq = Some h \<and> checkTransactionUsed (bookings s) h"
    and b: "validTxHash h \<and> req_bookingId rq = Some bid \<and> bid \<noteq> []
             \<and> req_chainId rq = Some cid \<and> cid \<noteq> 0
             \<and> req_paymentToken rq = Some tok \<and> tok \<noteq> []"
  from b have "h \<noteq> []" by (auto simp: validTxHash_def)
  with a b show "submitPayment s rq = (Rejected 409 TRANSACTION_ALREADY_USED, s, None)"
    by (simp add: submitPayment_def)
qed

theorem checkTransactionUsed_guard_witness:
  "checkTransactionUsed
      [(newBooking ''BK-1'')\<lparr>status := CONFIRMED, txHash := Some sampleTx\<rparr>,
       (newBooking ''BK-2'')\<lparr>status := PENDING\<rparr>] sampleTx
   \<and> submitPayment
       (storeOf [(newBooking ''BK-1'')\<lparr>status := CONFIRMED, txHash := Some sampleTx\<rparr>,
                 (newBooking ''BK-2'')\<lparr>status := PENDING\<rparr>])
       (submission ''BK-2'' sampleTx ''USDC'' False)
     = (Rejected 409 TRANSACTION_ALREADY_USED,
        storeOf [(newBooking ''BK-1'')\<lparr>status := CONFIRMED, txHash := Some sampleTx\<rparr>,
                 (newBooking ''BK-2'')\<lparr>status := PENDING\<rparr>], None)"
  using checkTransactionUsed_guard[of
      "[(newBooking ''BK-1'')\<lparr>status := CONFIRMED, txHash := Some sampleTx\<rparr>,
        (newBooking ''BK-2'')\<lparr>status := PENDING\<rparr>]" sampleTx
      "submission ''BK-2'' sampleTx ''USDC'' False"
      "storeOf [(newBooking ''BK-1'')\<lparr>status := CONFIRMED, txHash := Some sampleTx\<rparr>,
                 (newBooking ''BK-2'')\<lparr>status := PENDING\<rparr>]"
      "''BK-2''" 10143 "''USDC''"]
    validTxHash_sampleTx
  by (simp add: submission_def storeOf_def newBooking_def)

section \<open>The amount and token resolver\<close>

text \<open>
  Claim C7, as amended. The resolver applies three rules, the first that matches winning.
  (1) When \<open>requiresReservation\<close> holds, \<open>reservationPaid\<close> does not and
  \<open>isRemainingPayment\<close> is false, the amount is \<open>reservationAmount\<close> and the token is
  \<open>reservationToken\<close>, else the booking's \<open>paymentToken\<close>, else \<open>USDC\<close>.
  (2) Otherwise, when \<open>isRemainingPayment\<close> is true, the resolver fails unless
  \<open>reservationPaid\<close> holds; the amount is \<open>remainingAmount\<close> and the token is
  \<open>remainingToken\<close>, else \<open>paymentToken\<close>, else \<open>USDC\<close>.
  (3) Otherwise the amount is \<open>paymentAmount\<close> and the token is \<open>paymentToken\<close>, else
  \<open>USDC\<close>.
  In each rule a booking already in the phase's success state yields the
  already-verified result instead.
\<close>

theorem resolveExpected_rules:
  "(requiresReservation b \<and> \<not> reservationPaid b \<and> \<not> isRemainingPayment \<longrightarrow>
      resolveExpected b isRemainingPayment =
        (if status b = RESERVED then Inr AlreadyVerified
         else Inr (Expected True (reservationAmount b)
                (orElse (reservationToken b) (orElse (paymentToken b) ''USDC'')))))
   \<and> (\<not> (requiresReservation b \<and> \<not> reservationPaid b \<and> \<not> isRemainingPayment)
        \<and> isRemainingPayment \<longrightarrow>
      resolveExpected b isRemainingPayment =
        (if \<not> reservationPaid b then Inl ReservationNotPaidYet
         else if status b = CONFIRMED \<or> remainingPaid b then Inr AlreadyVerified
         else Inr (Expected False (remainingAmount b)
                (orElse (remainingToken b) (orElse (paymentToken b) ''USDC'')))))
   \<and> (\<not> (requiresReservation b \<and> \<not> reservationPaid b \<and> \<not> isRemainingPayment)
        \<and> \<not> isRemainingPayment \<longrightarrow>
      resolveExpected b isRemainingPayment =
        (if status b = CONFIRMED then Inr AlreadyVerified
         else Inr (Expected False (paymentAmount b) (orElse (paymentToken b) ''USDC''))))"
  by (auto simp: resolveExpected_def isReservationPayment_def)

theorem resolveExpected_rules_witness:
  "resolveExpected ((newBooking ''BK-1'')\<lparr>status := PENDING, requiresReservation := True,
       reservationAmount := Some 30, paymentToken := Some ''USDT''\<rparr>) False
     = Inr (Expected True (Some 30) ''USDT'')
   \<and> resolveExpected ((newBooking ''BK-1'')\<lparr>status := RESERVED, requiresReservation := True,
       reservationPaid := True, remainingAmount := Some 70, remainingToken := Some ''USDC''\<rparr>) True
     = Inr (Expected False (Some 70) ''USDC'')
   \<and> resolveExpected ((newBooking ''BK-1'')\<lparr>status := PENDING, requiresReservation := True,
       remainingAmount := Some 70\<rparr>) True
     = Inl ReservationNotPaidYet
   \<and> resolveExpected ((newBooking ''BK-1'')\<lparr>status := PENDING,
       paymentAmount := Some 100, paymentToken := Some ''USDC''\<rparr>) False
     = Inr (Expected False (Some 100) ''USDC'')"
  using resolveExpected_rules[of "(newBooking ''BK-1'')\<lparr>status := PENDING, requiresReservation := True,
       reservationAmount := Some 30, paymentToken := Some ''USDT''\<rparr>" False]
    resolveExpected_rules[of "(newBooking ''BK-1'')\<lparr>status := RESERVED, requiresReservation := True,
       reservationPaid := True, remainingAmount := Some 70, remainingToken := Some ''USDC''\<rparr>" True]
    resolveExpected_rules[of "(newBooking ''BK-1'')\<lparr>status := PENDING, requiresReservation := True,
       remainingAmount := Some 70\<rparr>" True]
    resolveExpected_rules[of "(newBooking ''BK-1'')\<lparr>status := PENDING,
       paymentAmount := Some 100, paymentToken := Some ''USDC''\<rparr>" False]
  by (simp add: newBooking_def orElse_def)

text \<open>
  Claim C7 as stated gives the remaining phase the token \<open>remainingToken\<close> with no
  fallback. For a booking whose \<open>remainingToken\<close> is not set and whose \<open>paymentToken\<close>
  is \<open>USDT\<close>, the resolver yields \<open>USDT\<close>.
\<close>

theorem resolveExpected_token_counterexample:
  "resolveExpected ((newBooking ''BK-1'')\<lparr>status := RESERVED, requiresReservation := True,
       reservationPaid := True, remainingAmount := Some 70, paymentToken := Some ''USDT''\<rparr>) True
     = Inr (Expected False (Some 70) ''USDT'')
   \<and> remainingToken ((newBooking ''BK-1'')\<lparr>status := RESERVED, requiresReservation := True,
       reservationPaid := True, remainingAmount := Some 70, paymentToken := Some ''USDT''\<rparr>) = None"
  by (simp add: resolveExpected_def isReservationPayment_def newBooking_def orElse_def)

section \<open>The status guards of the submission handler\<close>

lemma submitPayment_guarded:
  assumes "req_bookingId rq = Some bid" and "bid \<noteq> []"
    and "req_txHash rq = Some h" and "validTxHash h"
    and "req_chainId rq = Some cid" and "cid \<noteq> 0"
    and "req_paymentToken rq = Some tok" and "tok \<noteq> []"
    and "\<not> checkTransactionUsed (bookings s) h"
    and "findUnique (bookings s) bid = Some b"
    and "guards b (req_isRemainingPayment rq) tok = Some rejection"
  shows "submitPayment s rq = (rejection, s, None)"
proof -
  from assms(4) have "h \<noteq> []" by (auto simp: validTxHash_def)
  with assms show ?thesis by (simp add: submitPayment_def)
qed

text \<open>
  Claim C4, as amended. For a submission that passes the field and format checks, whose
  hash is not already used and whose booking exists, the handler rejects, with the store
  unchanged and no verification started (hence with no call of the chain reader, which
  the handler itself never calls):
  a remaining-phase submission for a reservation booking whose \<open>reservationPaid\<close> is
  false, by HTTP 400, whatever the status;
  a remaining-phase submission for a reservation booking whose \<open>reservationPaid\<close> is
  true and whose status is not \<open>RESERVED\<close>, by HTTP 409 with the current status;
  a reservation-phase submission whose booking is not \<open>PENDING\<close>, by HTTP 409 with the
  current status;
  a submission for a booking without reservation that is not \<open>PENDING\<close>, by HTTP 409
  with the current status.
\<close>

theorem submitPayment_status_guards:
  assumes "req_bookingId rq = Some bid" and "bid \<noteq> []"
    and "req_txHash rq = Some h" and "validTxHash h"
    and "req_chainId rq = Some cid" and "cid \<noteq> 0"
    and "req_paymentToken rq = Some tok" and "tok \<noteq> []"
    and "\<not> checkTransactionUsed (bookings s) h"
    and "findUnique (bookings s) bid = Some b"
  shows "(requiresReservation b \<and> req_isRemainingPayment rq \<and> \<not> reservationPaid b \<longrightarrow>
            submitPayment s rq = (Rejected 400 ReservationNotPaid, s, None))
       \<and> (requiresReservation b \<and> req_isRemainingPayment rq \<and> reservationPaid b
            \<and> status b \<noteq> RESERVED \<longrightarrow>
            submitPayment s rq = (Rejected 409 (CannotSubmitRemaining (status b)), s, None))
       \<and> (requiresReservation b \<and> \<not> req_isRemainingPayment rq \<and> status b \<noteq> PENDING \<longrightarrow>
            submitPayment s rq = (Rejected 409 (CannotSubmitReservation (status b)), s, None))
       \<and> (\<not> requiresReservation b \<and> status b \<noteq> PENDING \<longrightarrow>
            submitPayment s rq = (Rejected 409 (CannotSubmitPayment (status b)), s, None))"
  using submitPayment_guarded[OF assms]
  by (auto simp: guards_def)

theorem submitPayment_status_guards_witness:
  "submitPayment (storeOf [(newBooking ''BK-1'')\<lparr>status := RESERVED, paymentToken := Some ''USDC'',
                             paymentAmount := Some 100\<rparr>])
     (submission ''BK-1'' sampleTx ''USDC'' False)
   = (Rejected 409 (CannotSubmitPayment RESERVED),
      storeOf [(newBooking ''BK-1'')\<lparr>status := RESERVED, paymentToken := Some ''USDC'',
                             paymentAmount := Some 100\<rparr>], None)"
  using submitPayment_status_guards[of "submission ''BK-1'' sampleTx ''USDC'' False" "''BK-1''"
      sampleTx 10143 "''USDC''"
      "storeOf [(newBooking ''BK-1'')\<lparr>status := RESERVED, paymentToken := Some ''USDC'',
                             paymentAmount := Some 100\<rparr>]"
      "(newBooking ''BK-1'')\<lparr>status := RESERVED, paymentToken := Some ''USDC'',
                             paymentAmount := Some 100\<rparr>"]
    validTxHash_sampleTx
  by (simp add: submission_def storeOf_def newBooking_def findUnique_def
        checkTransactionUsed_def usedBy_def)

text \<open>
  Claim C4 as stated answers HTTP 409 whenever the status the phase requires does not
  hold. A remaining-phase submission for a \<open>PENDING\<close> reservation booking whose
  reservation is unpaid is answered by HTTP 400: the check of \<open>reservationPaid\<close> comes
  before the check of the status.
\<close>

theorem submitPayment_status_conflict_counterexample:
  "submitPayment (storeOf [(newBooking ''BK-1'')\<lparr>status := PENDING, requiresReservation := True,
                             reservationAmount := Some 30, remainingAmount := Some 70\<rparr>])
     (submission ''BK-1'' sampleTx ''USDC'' True)
   = (Rejected 400 ReservationNotPaid,
      storeOf [(newBooking ''BK-1'')\<lparr>status := PENDING, requiresReservation := True,
                             reservationAmount := Some 30, remainingAmount := Some 70\<rparr>], None)"
  using validTxHash_sampleTx
  by (simp add: submitPayment_def guards_def submission_def storeOf_def newBooking_def
        findUnique_def checkTransactionUsed_def usedBy_def sampleTx_def)

section \<open>Sample data: basic facts\<close>

lemma BigInt_data:
  "BigInt data30 = Some 30000000" "BigInt data30less1 = Some 29999999"
  by (simp_all add: BigInt_def data30_def data30less1_def hexDigit_def)

lemma toTreasury_sample:
  "toTreasury \<lparr>ev_address = a, ev_topics = [t0, t1, treasuryTopic], ev_data = d\<rparr>"
  "\<not> toTreasury \<lparr>ev_address = a, ev_topics = [t0, t1, strangerTopic], ev_data = d\<rparr>"
  by (simp_all add: toTreasury_def toAddress_def toLowerCase_def lowerChar_def
        treasuryAddress_def treasuryTopic_def strangerTopic_def)

lemma isTransferLog_sample:
  "isTransferLog (toLowerCase MONAD_TESTNET_USDC)
     \<lparr>ev_address = usdcContract, ev_topics = TRANSFER_TOPIC # ts, ev_data = d\<rparr>"
  by (simp add: isTransferLog_def toLowerCase_def lowerChar_def MONAD_TESTNET_USDC_def
        usdcContract_def)

lemma chainConfig_monad:
  "chainConfig 10143 = Some \<lparr>chain_name = ''Monad Testnet'',
      tokens = [(''USDC'', \<lparr>address = MONAD_TESTNET_USDC, decimals = 6, symbol = ''USDC''\<rparr>),
                (''USDT'', \<lparr>address = MONAD_TESTNET_USDT, decimals = 6, symbol = ''USDT''\<rparr>)]\<rparr>"
  by (simp add: chainConfig_def)

section \<open>One attempt and the loop: basic facts\<close>

lemma failWith_found:
  assumes "findUnique (bookings s) bid = Some b"
  shows "\<exists>i<length (bookings s). bookings s ! i = b \<and>
           failWith s bid f = Return (failedStore s i b f)"
  using updateBookingStatus_found[OF assms, of FAILED f]
  by (auto simp: failWith_def)

lemma resolveExpected_token_nonempty:
  "resolveExpected b isRemainingPayment = Inr (Expected isReservation amount tok) \<Longrightarrow> tok \<noteq> []"
  by (auto simp: resolveExpected_def orElse_def split: if_splits option.splits)

lemma tryBody_at_receipt:
  assumes "findUnique (bookings s) bid = Some b"
    and "resolveExpected b isRemainingPayment = Inr (Expected isReservation (Some a) tok)"
    and "a \<noteq> 0"
    and "getPublicClient e cid"
    and "getTransactionReceipt e retryCount h = ReceiptFound r"
  shows "tryBody e s bid h cid isRemainingPayment retryCount =
           (case checkReceipt e cid a tok r of
              Inl ex \<Rightarrow> Throw ex
            | Inr (Some f) \<Rightarrow> failWith s bid f
            | Inr None \<Rightarrow>
               (case getTransaction e retryCount h of
                  None \<Rightarrow> Throw TransactionFetchError
                | Some tx \<Rightarrow>
                   (case confirmPayment e s b bid h cid isReservation
                           isRemainingPayment a tok r tx of
                      Inl ex \<Rightarrow> Throw ex
                    | Inr s' \<Rightarrow> Return s')))"
  using assms resolveExpected_token_nonempty[OF assms(2)]
  by (simp add: tryBody_def falsyNum_def)

lemma verifyLoop_Exit:
  assumes "retryCount < maxRetries"
    and "iteration e s bid h cid isRemainingPayment maxRetries retryCount = Exit res"
  shows "verifyLoop e bid h cid isRemainingPayment maxRetries retryCount s = res"
  using assms by (subst verifyLoop.simps) simp

lemma verifyLoop_Again:
  assumes "retryCount < maxRetries"
    and "iteration e s bid h cid isRemainingPayment maxRetries retryCount = Again retryCount' s'"
  shows "verifyLoop e bid h cid isRemainingPayment maxRetries retryCount s =
         verifyLoop e bid h cid isRemainingPayment maxRetries retryCount' s'"
  using assms by (subst verifyLoop.simps) simp

lemma verifyLoop_done:
  "\<not> retryCount < maxRetries \<Longrightarrow>
   verifyLoop e bid h cid isRemainingPayment maxRetries retryCount s = Inr s"
  by (subst verifyLoop.simps) simp

lemma iteration_terminal:
  assumes "findUnique (bookings s) bid = Some b"
    and "resolveExpected b isRemainingPayment = Inr (Expected isReservation (Some a) tok)"
    and "a \<noteq> 0"
    and "getPublicClient e cid"
    and "getTransactionReceipt e retryCount h = ReceiptFound r"
    and "checkReceipt e cid a tok r = Inr (Some f)"
  shows "\<exists>i<length (bookings s). bookings s ! i = b \<and>
           iteration e s bid h cid isRemainingPayment maxRetries retryCount
             = Exit (Inr (failedStore s i b f))"
proof -
  have "tryBody e s bid h cid isRemainingPayment retryCount = failWith s bid f"
    using tryBody_at_receipt[OF assms(1-5)] assms(6) by simp
  with failWith_found[OF assms(1), of f] show ?thesis
    by (auto simp: iteration_def)
qed

lemma iteration_throws:
  assumes "tryBody e s bid h cid isRemainingPayment retryCount = Throw ex"
    and "findUnique (bookings s) bid = Some b"
  shows "retryCount + 1 < maxRetries \<Longrightarrow>
           iteration e s bid h cid isRemainingPayment maxRetries retryCount
             = Again (retryCount + 1) s"
    and "\<not> retryCount + 1 < maxRetries \<Longrightarrow>
           \<exists>i<length (bookings s). bookings s ! i = b \<and>
             iteration e s bid h cid isRemainingPayment maxRetries retryCount
               = Again (retryCount + 1) (failedStore s i b (AttemptsFailed ex (retryCount + 1)))"
proof -
  show "retryCount + 1 < maxRetries \<Longrightarrow>
           iteration e s bid h cid isRemainingPayment maxRetries retryCount
             = Again (retryCount + 1) s"
    using assms(1) by (simp add: iteration_def catchBlock_def)
  show "\<not> retryCount + 1 < maxRetries \<Longrightarrow>
           \<exists>i<length (bookings s). bookings s ! i = b \<and>
             iteration e s bid h cid isRemainingPayment maxRetries retryCount
               = Again (retryCount + 1) (failedStore s i b (AttemptsFailed ex (retryCount + 1)))"
    using assms(1)
      updateBookingStatus_found[OF assms(2), of FAILED "AttemptsFailed ex (retryCount + 1)"]
    by (auto simp: iteration_def catchBlock_def)
qed

lemma iteration_missing:
  assumes "tryBody e s bid h cid isRemainingPayment retryCount = ReceiptMissing"
    and "findUnique (bookings s) bid = Some b"
  shows "retryCount + 1 < maxRetries \<Longrightarrow>
           iteration e s bid h cid isRemainingPayment maxRetries retryCount
             = Again (retryCount + 1) s"
    and "\<not> retryCount + 1 < maxRetries \<Longrightarrow>
           \<exists>i<length (bookings s). bookings s ! i = b \<and>
             iteration e s bid h cid isRemainingPayment maxRetries retryCount
               = Exit (Inr (failedStore s i b TransactionTimeout))"
proof -
  show "retryCount + 1 < maxRetries \<Longrightarrow>
           iteration e s bid h cid isRemainingPayment maxRetries retryCount
             = Again (retryCount + 1) s"
    using assms(1) by (simp add: iteration_def)
  show "\<not> retryCount + 1 < maxRetries \<Longrightarrow>
           \<exists>i<length (bookings s). bookings s ! i = b \<and>
             iteration e s bid h cid isRemainingPayment maxRetries retryCount
               = Exit (Inr (failedStore s i b TransactionTimeout))"
    using assms(1) updateBookingStatus_found[OF assms(2), of FAILED TransactionTimeout]
    by (auto simp: iteration_def)
qed

text \<open>A loop whose every iteration but the last goes round again with the store unchanged
  ends as its last iteration does.\<close>

lemma verifyLoop_all_again:
  assumes again: "\<And>k. k + 1 < maxRetries \<Longrightarrow>
             iteration e s bid h cid isRemainingPayment maxRetries k = Again (k + 1) s"
    and "retryCount < maxRetries"
  shows "verifyLoop e bid h cid isRemainingPayment maxRetries retryCount s =
         verifyLoop e bid h cid isRemainingPayment maxRetries (maxRetries - 1) s"
  using assms(2)
proof (induction "maxRetries - 1 - retryCount" arbitrary: retryCount)
  case 0
  then have "retryCount = maxRetries - 1" by simp
  then show ?case by simp
next
  case (Suc n)
  then have lt: "retryCount + 1 < maxRetries" by simp
  have "verifyLoop e bid h cid isRemainingPayment maxRetries retryCount s =
        verifyLoop e bid h cid isRemainingPayment maxRetries (retryCount + 1) s"
    using verifyLoop_Again[OF Suc.prems again[OF lt]] .
  also have "\<dots> = verifyLoop e bid h cid isRemainingPayment maxRetries (maxRetries - 1) s"
    using Suc.hyps(1)[of "retryCount + 1"] Suc.hyps(2) lt by simp
  finally show ?case .
qed

text \<open>A loop whose every attempt throws the same error ends failed, with that error and the
  number of attempts.\<close>

lemma always_throws:
  assumes "findUnique (bookings s) bid = Some b"
    and "0 < maxRetries"
    and "\<And>k. k < maxRetries \<Longrightarrow> tryBody e s bid h cid isRemainingPayment k = Throw ex"
  shows "(\<forall>k. k + 1 < maxRetries \<longrightarrow>
            iteration e s bid h cid isRemainingPayment maxRetries k = Again (k + 1) s)
       \<and> (\<exists>i<length (bookings s). bookings s ! i = b
            \<and> verifyPayment e s bid h cid isRemainingPayment maxRetries
                = Inr (failedStore s i b (AttemptsFailed ex maxRetries)))"
proof -
  have again: "iteration e s bid h cid isRemainingPayment maxRetries k = Again (k + 1) s"
    if "k + 1 < maxRetries" for k
    using iteration_throws(1)[OF assms(3) assms(1) that] that by simp
  have last: "\<not> (maxRetries - 1) + 1 < maxRetries" by simp
  have "maxRetries - 1 < maxRetries" using assms(2) by simp
  from iteration_throws(2)[OF assms(3)[OF this] assms(1) last] assms(2)
  obtain i where i: "i < length (bookings s)" "bookings s ! i = b"
    "iteration e s bid h cid isRemainingPayment maxRetries (maxRetries - 1)
       = Again maxRetries (failedStore s i b (AttemptsFailed ex maxRetries))"
    by auto
  have "verifyPayment e s bid h cid isRemainingPayment maxRetries
          = verifyLoop e bid h cid isRemainingPayment maxRetries (maxRetries - 1) s"
    unfolding verifyPayment_def using verifyLoop_all_again[OF again assms(2)] by simp
  also have "\<dots> = verifyLoop e bid h cid isRemainingPayment maxRetries maxRetries
                     (failedStore s i b (AttemptsFailed ex maxRetries))"
    using verifyLoop_Again[OF _ i(3)] assms(2) by simp
  also have "\<dots> = Inr (failedStore s i b (AttemptsFailed ex maxRetries))"
    by (simp add: verifyLoop_done)
  finally show ?thesis using again i by blast
qed

section \<open>The exact-amount law\<close>

lemma checkReceipt_mismatch:
  assumes "rc_status r = success"
    and "chainConfig cid = Some chain" and "map_of (tokens chain) tok = Some tokenInfo"
    and "parseUnits e a (decimals tokenInfo) = Some expectedBaseUnits"
    and "List.find toTreasury
           (filter (isTransferLog (toLowerCase (address tokenInfo))) (logs r)) = Some l"
    and "BigInt (ev_data l) = Some v"
  shows "checkReceipt e cid a tok r =
           (if int v \<noteq> expectedBaseUnits
            then Inr (Some (PaymentAmountMismatch v expectedBaseUnits)) else Inr None)"
proof -
  have "filter (isTransferLog (toLowerCase (address tokenInfo))) (logs r) \<noteq> []"
    using assms(5) by auto
  with assms show ?thesis by (simp add: checkReceipt_def)
qed

lemma mismatch_from_scaled:
  fixes x :: rat and u :: int and v :: nat
  shows "of_int u = x \<Longrightarrow> of_nat v \<noteq> x \<Longrightarrow> int v \<noteq> u"
    and "\<bar>of_int u - x\<bar> \<le> 1 / 2 \<Longrightarrow> 1 \<le> \<bar>of_nat v - x\<bar> \<Longrightarrow> int v \<noteq> u"
proof -
  show "int v \<noteq> u" if "of_int u = x" "of_nat v \<noteq> x"
  proof
    assume "int v = u"
    then have "(of_int u :: rat) = of_nat v" by auto
    with that show False by simp
  qed
  show "int v \<noteq> u" if "\<bar>of_int u - x\<bar> \<le> 1 / 2" "1 \<le> \<bar>of_nat v - x\<bar>"
  proof
    assume "int v = u"
    then have "(of_int u :: rat) = of_nat v" by auto
    with that show False by simp
  qed
qed

lemma roundingUnits_nearest:
  assumes "roundingUnits a d = Some u"
  shows "\<bar>of_int u - a * 10 ^ d\<bar> \<le> 1 / 2"
proof -
  from assms have u: "u = \<lfloor>a * 10 ^ d + 1 / 2\<rfloor>" by (simp add: roundingUnits_def)
  have "of_int u \<le> a * 10 ^ d + 1 / 2" and "a * 10 ^ d + 1 / 2 < of_int u + 1"
    unfolding u by linarith+
  then show ?thesis by linarith
qed

text \<open>
  Claim C3, as amended. Take an attempt of the verification loop that reaches the receipt
  of a successful transaction, for a configured chain and token, and let the selected log
  be the first log of the token contract with the Transfer signature whose recipient is
  the treasury. The expected base units are what \<open>parseUnits\<close> returns for the expected
  amount and the token's decimals. If the log's value, read from the log data as an
  unsigned integer, is not equal to them, verification returns at once with the booking's
  status set to \<open>FAILED\<close>, the only other change being the activity log entry carrying
  the amount-mismatch error: the booking is not moved to \<open>CONFIRMED\<close> or \<open>RESERVED\<close>.
  Hence, when \<open>parseUnits\<close> returns the expected amount scaled by \<open>10 ^ decimals\<close>
  exactly, every value that differs from the scaled amount fails, be it by one base
  unit; and when it returns the scaled amount rounded to a nearest integer, every value
  that differs from the scaled amount by one base unit or more fails. (The rounded value
  itself is accepted.)
\<close>

theorem amount_mismatch_fails:
  assumes "findUnique (bookings s) bid = Some b"
    and "resolveExpected b isRemainingPayment = Inr (Expected isReservation (Some a) tok)"
    and "a \<noteq> 0"
    and "getPublicClient e cid"
    and "retryCount < maxRetries"
    and "getTransactionReceipt e retryCount h = ReceiptFound r"
    and "rc_status r = success"
    and "chainConfig cid = Some chain" and "map_of (tokens chain) tok = Some tokenInfo"
    and "parseUnits e a (decimals tokenInfo) = Some expectedBaseUnits"
    and "List.find toTreasury
           (filter (isTransferLog (toLowerCase (address tokenInfo))) (logs r)) = Some l"
    and "BigInt (ev_data l) = Some v"
  shows "(int v \<noteq> expectedBaseUnits
            \<or> (of_int expectedBaseUnits = a * 10 ^ decimals tokenInfo
                 \<and> of_nat v \<noteq> a * 10 ^ decimals tokenInfo)
            \<or> (\<bar>of_int expectedBaseUnits - a * 10 ^ decimals tokenInfo\<bar> \<le> 1 / 2
                 \<and> 1 \<le> \<bar>of_nat v - a * 10 ^ decimals tokenInfo\<bar>) \<longrightarrow>
          (\<exists>i<length (bookings s). bookings s ! i = b \<and>
             verifyLoop e bid h cid isRemainingPayment maxRetries retryCount s
               = Inr (failedStore s i b (PaymentAmountMismatch v expectedBaseUnits))))"
proof
  assume "int v \<noteq> expectedBaseUnits
            \<or> (of_int expectedBaseUnits = a * 10 ^ decimals tokenInfo
                 \<and> of_nat v \<noteq> a * 10 ^ decimals tokenInfo)
            \<or> (\<bar>of_int expectedBaseUnits - a * 10 ^ decimals tokenInfo\<bar> \<le> 1 / 2
                 \<and> 1 \<le> \<bar>of_nat v - a * 10 ^ decimals tokenInfo\<bar>)"
  then have ne: "int v \<noteq> expectedBaseUnits"
    using mismatch_from_scaled[of expectedBaseUnits "a * 10 ^ decimals tokenInfo" v] by blast
  have "checkReceipt e cid a tok r = Inr (Some (PaymentAmountMismatch v expectedBaseUnits))"
    using checkReceipt_mismatch[OF assms(7-12)] ne by simp
  from iteration_terminal[OF assms(1-4) assms(6) this, where maxRetries = maxRetries]
  obtain i where "i < length (bookings s)" "bookings s ! i = b"
    "iteration e s bid h cid isRemainingPayment maxRetries retryCount
       = Exit (Inr (failedStore s i b (PaymentAmountMismatch v expectedBaseUnits)))"
    by blast
  with verifyLoop_Exit[OF assms(5) this(3)]
  show "\<exists>i<length (bookings s). bookings s ! i = b \<and>
          verifyLoop e bid h cid isRemainingPayment maxRetries retryCount s
            = Inr (failedStore s i b (PaymentAmountMismatch v expectedBaseUnits))"
    by blast
qed

theorem amount_mismatch_fails_witness:
  "verifyPayment
     (sampleEnv (\<lambda>_. ReceiptFound (transferReceipt usdcContract treasuryTopic data30less1)))
     (storeOf [reservation30]) ''BK-1'' sampleTx 10143 False 10
   = Inr \<lparr>bookings = [reservation30\<lparr>status := FAILED\<rparr>],
          activityLog = [\<lparr>log_booking = ''BK-1'', log_action = payment_status FAILED,
                           log_error = Some (PaymentAmountMismatch 29999999 30000000),
                           log_txHash = None\<rparr>],
          outbox = []\<rparr>"
proof -
  let ?r = "transferReceipt usdcContract treasuryTopic data30less1"
  let ?e = "sampleEnv (\<lambda>_. ReceiptFound ?r)"
  let ?l = "\<lparr>ev_address = usdcContract,
             ev_topics = [TRANSFER_TOPIC,
               ''0x00000000000000000000000070997970c51812dc3a010c7d01b50e0d17dc79c8'',
               treasuryTopic],
             ev_data = data30less1\<rparr>"
  have 1: "findUnique (bookings (storeOf [reservation30])) ''BK-1'' = Some reservation30"
    by (simp add: findUnique_def storeOf_def reservation30_def newBooking_def)
  have 2: "resolveExpected reservation30 False = Inr (Expected True (Some 30) ''USDC'')"
    by (simp add: resolveExpected_def isReservationPayment_def reservation30_def
          newBooking_def orElse_def)
  have 3: "(30::rat) \<noteq> 0" by simp
  have 4: "getPublicClient ?e 10143" by (simp add: getPublicClient_def sampleEnv_def)
  have 5: "(0::nat) < 10" by simp
  have 6: "getTransactionReceipt ?e 0 sampleTx = ReceiptFound ?r" by (simp add: sampleEnv_def)
  have 7: "rc_status ?r = success" by (simp add: transferReceipt_def)
  have 9: "map_of (tokens \<lparr>chain_name = ''Monad Testnet'',
      tokens = [(''USDC'', \<lparr>address = MONAD_TESTNET_USDC, decimals = 6, symbol = ''USDC''\<rparr>),
                (''USDT'', \<lparr>address = MONAD_TESTNET_USDT, decimals = 6, symbol = ''USDT''\<rparr>)]\<rparr>)
        ''USDC'' = Some \<lparr>address = MONAD_TESTNET_USDC, decimals = 6, symbol = ''USDC''\<rparr>"
    by simp
  have 10: "parseUnits ?e 30 (decimals \<lparr>address = MONAD_TESTNET_USDC, decimals = 6, symbol = ''USDC''\<rparr>)
              = Some 30000000"
    by (simp add: sampleEnv_def)
  have 11: "List.find toTreasury
           (filter (isTransferLog (toLowerCase
              (address \<lparr>address = MONAD_TESTNET_USDC, decimals = 6, symbol = ''USDC''\<rparr>))) (logs ?r))
            = Some ?l"
    using isTransferLog_sample toTreasury_sample(1) by (simp add: transferReceipt_def)
  have 12: "BigInt (ev_data ?l) = Some 29999999" using BigInt_data(2) by simp
  have 13: "(of_int 30000000 :: rat)
              = 30 * 10 ^ decimals \<lparr>address = MONAD_TESTNET_USDC, decimals = 6, symbol = ''USDC''\<rparr>
            \<and> (of_nat 29999999 :: rat)
              \<noteq> 30 * 10 ^ decimals \<lparr>address = MONAD_TESTNET_USDC, decimals = 6, symbol = ''USDC''\<rparr>"
    by simp
  from amount_mismatch_fails[OF 1 2 3 4 5 6 7 chainConfig_monad 9 10 11 12] 13
  show ?thesis
    by (simp add: verifyPayment_def storeOf_def reservation30_def newBooking_def)
qed

text \<open>
  Claim C3 as stated has every value that differs from the expected amount scaled by
  \<open>10 ^ decimals\<close> fail. A remaining amount of 119.99000000000001 scaled by \<open>10 ^ 6\<close>
  is not an integer; \<open>parseUnits\<close> rounds it to 119990000, and a transfer of 119990000
  base units, which differs from the scaled amount, moves the booking to \<open>CONFIRMED\<close>.
\<close>

theorem rounded_amount_accepted_counterexample:
  "(of_nat 119990000 :: rat) \<noteq> 11999000000000001 / 100000000000000 * 10 ^ 6
   \<and> verifyPayment roundingNode (storeOf [remainder119]) ''BK-1'' sampleTx 10143 True 10
     = Inr \<lparr>bookings =
              [remainder119\<lparr>status := CONFIRMED, remainingPaid := True,
                 remainingTxHash := Some sampleTx, remainingPaidAt := Some 1700000000,
                 remainingChainId := Some 10143, remainingToken := Some ''USDC'',
                 confirmedAt := Some 1700000000,
                 totalPaid := Some (30 + 11999000000000001 / 100000000000000)\<rparr>],
            activityLog = [\<lparr>log_booking = ''BK-1'', log_action = remaining_payment_confirmed,
                             log_error = None, log_txHash = Some sampleTx\<rparr>],
            outbox = []\<rparr>"
proof -
  let ?a = "11999000000000001 / 100000000000000 :: rat"
  let ?r = "transferReceipt usdcContract treasuryTopic data119"
  let ?tx = "\<lparr>tx_from = ''0x70997970c51812dc3a010c7d01b50e0d17dc79c8'', gasPrice = Some 52\<rparr>"
  let ?tokenInfo = "\<lparr>address = MONAD_TESTNET_USDC, decimals = 6, symbol = ''USDC''\<rparr>"
  let ?chain = "\<lparr>chain_name = ''Monad Testnet'',
      tokens = [(''USDC'', ?tokenInfo),
                (''USDT'', \<lparr>address = MONAD_TESTNET_USDT, decimals = 6, symbol = ''USDT''\<rparr>)]\<rparr>"
  let ?l = "\<lparr>ev_address = usdcContract,
             ev_topics = [TRANSFER_TOPIC,
               ''0x00000000000000000000000070997970c51812dc3a010c7d01b50e0d17dc79c8'',
               treasuryTopic],
             ev_data = data119\<rparr>"
  have ne: "(of_nat 119990000 :: rat) \<noteq> ?a * 10 ^ 6" by simp
  have f: "findUnique (bookings (storeOf [remainder119])) ''BK-1'' = Some remainder119"
    by (simp add: findUnique_def storeOf_def remainder119_def newBooking_def)
  have rs: "resolveExpected remainder119 True = Inr (Expected False (Some ?a) ''USDC'')"
    by (simp add: resolveExpected_def isReservationPayment_def remainder119_def
          newBooking_def orElse_def)
  have pos: "?a \<noteq> 0" by simp
  have cl: "getPublicClient roundingNode 10143"
    and rc: "getTransactionReceipt roundingNode 0 sampleTx = ReceiptFound ?r"
    and tx: "getTransaction roundingNode 0 sampleTx = Some ?tx"
    by (simp_all add: roundingNode_def sampleEnv_def getPublicClient_def)
  have st: "rc_status ?r = success" by (simp add: transferReceipt_def)
  have tk: "map_of (tokens ?chain) ''USDC'' = Some ?tokenInfo" by simp
  have "\<lfloor>?a * 10 ^ 6 + 1 / 2\<rfloor> = 119990000"
    by (rule floor_unique) simp_all
  then have pu: "parseUnits roundingNode ?a (decimals ?tokenInfo) = Some 119990000"
    by (simp add: roundingNode_def sampleEnv_def roundingUnits_def)
  have fd: "List.find toTreasury
              (filter (isTransferLog (toLowerCase (address ?tokenInfo))) (logs ?r)) = Some ?l"
    using isTransferLog_sample toTreasury_sample(1) by (simp add: transferReceipt_def)
  have bi: "BigInt (ev_data ?l) = Some 119990000"
    by (simp add: BigInt_def data119_def hexDigit_def)
  have ok: "checkReceipt roundingNode 10143 ?a ''USDC'' ?r = Inr None"
    using checkReceipt_mismatch[OF st chainConfig_monad tk pu fd bi] by simp
  have cf: "confirmPayment roundingNode (storeOf [remainder119]) remainder119 ''BK-1'' sampleTx
              10143 False True ?a ''USDC'' ?r ?tx
            = Inr \<lparr>bookings =
              [remainder119\<lparr>status := CONFIRMED, remainingPaid := True,
                 remainingTxHash := Some sampleTx, remainingPaidAt := Some 1700000000,
                 remainingChainId := Some 10143, remainingToken := Some ''USDC'',
                 confirmedAt := Some 1700000000,
                 totalPaid := Some (30 + ?a)\<rparr>],
            activityLog = [\<lparr>log_booking = ''BK-1'', log_action = remaining_payment_confirmed,
                             log_error = None, log_txHash = Some sampleTx\<rparr>],
            outbox = []\<rparr>"
    by (simp add: confirmPayment_def storeOf_def remainder119_def newBooking_def
          remainingData_def sendTo_def logPaid_def roundingNode_def sampleEnv_def)
  have "tryBody roundingNode (storeOf [remainder119]) ''BK-1'' sampleTx 10143 True 0
          = Return \<lparr>bookings =
              [remainder119\<lparr>status := CONFIRMED, remainingPaid := True,
                 remainingTxHash := Some sampleTx, remainingPaidAt := Some 1700000000,
                 remainingChainId := Some 10143, remainingToken := Some ''USDC'',
                 confirmedAt := Some 1700000000,
                 totalPaid := Some (30 + ?a)\<rparr>],
            activityLog = [\<lparr>log_booking = ''BK-1'', log_action = remaining_payment_confirmed,
                             log_error = None, log_txHash = Some sampleTx\<rparr>],
            outbox = []\<rparr>"
    using tryBody_at_receipt[OF f rs pos cl rc] ok tx cf by simp
  then have "iteration roundingNode (storeOf [remainder119]) ''BK-1'' sampleTx 10143 True 10 0
          = Exit (Inr \<lparr>bookings =
              [remainder119\<lparr>status := CONFIRMED, remainingPaid := True,
                 remainingTxHash := Some sampleTx, remainingPaidAt := Some 1700000000,
                 remainingChainId := Some 10143, remainingToken := Some ''USDC'',
                 confirmedAt := Some 1700000000,
                 totalPaid := Some (30 + ?a)\<rparr>],
            activityLog = [\<lparr>log_booking = ''BK-1'', log_action = remaining_payment_confirmed,
                             log_error = None, log_txHash = Some sampleTx\<rparr>],
            outbox = []\<rparr>)"
    by (simp add: iteration_def)
  from verifyLoop_Exit[OF _ this] have "verifyPayment roundingNode (storeOf [remainder119])
      ''BK-1'' sampleTx 10143 True 10
     = Inr \<lparr>bookings =
              [remainder119\<lparr>status := CONFIRMED, remainingPaid := True,
                 remainingTxHash := Some sampleTx, remainingPaidAt := Some 1700000000,
                 remainingChainId := Some 10143, remainingToken := Some ''USDC'',
                 confirmedAt := Some 1700000000,
                 totalPaid := Some (30 + ?a)\<rparr>],
            activityLog = [\<lparr>log_booking = ''BK-1'', log_action = remaining_payment_confirmed,
                             log_error = None, log_txHash = Some sampleTx\<rparr>],
            outbox = []\<rparr>"
    by (simp add: verifyPayment_def)
  with ne show ?thesis by blast
qed

section \<open>Terminal failures of the transfer-log matcher\<close>

lemma sample_base:
  "findUnique (bookings (storeOf [reservation30])) ''BK-1'' = Some reservation30"
  "resolveExpected reservation30 False = Inr (Expected True (Some 30) ''USDC'')"
  "getPublicClient (sampleEnv replies) 10143"
  "getTransactionReceipt (sampleEnv replies) k h = replies k"
  "parseUnits (sampleEnv replies) 30 6 = Some 30000000"
  by (simp_all add: findUnique_def storeOf_def reservation30_def newBooking_def
        resolveExpected_def isReservationPayment_def orElse_def getPublicClient_def
        sampleEnv_def)

lemma checkReceipt_reverted:
  "rc_status r \<noteq> success \<Longrightarrow> checkReceipt e cid a tok r = Inr (Some TransactionFailedOnChain)"
  by (simp add: checkReceipt_def)

lemma checkReceipt_no_transfer:
  assumes "rc_status r = success"
    and "chainConfig cid = Some chain" and "map_of (tokens chain) tok = Some tokenInfo"
    and "parseUnits e a (decimals tokenInfo) = Some expectedBaseUnits"
    and "filter (isTransferLog (toLowerCase (address tokenInfo))) (logs r) = []"
  shows "checkReceipt e cid a tok r = Inr (Some NoTransferEvents)"
  using assms by (simp add: checkReceipt_def)

lemma checkReceipt_wrong_recipient:
  assumes "rc_status r = success"
    and "chainConfig cid = Some chain" and "map_of (tokens chain) tok = Some tokenInfo"
    and "parseUnits e a (decimals tokenInfo) = Some expectedBaseUnits"
    and "filter (isTransferLog (toLowerCase (address tokenInfo))) (logs r) \<noteq> []"
    and "\<forall>l \<in> set (filter (isTransferLog (toLowerCase (address tokenInfo))) (logs r)).
           \<not> toTreasury l"
  shows "checkReceipt e cid a tok r = Inr (Some WrongTreasury)"
proof -
  have "List.find toTreasury
          (filter (isTransferLog (toLowerCase (address tokenInfo))) (logs r)) = None"
    using assms(6) by (simp add: find_None_iff)
  with assms(1-5) show ?thesis by (simp add: checkReceipt_def)
qed

lemma terminal_failure:
  assumes "findUnique (bookings s) bid = Some b"
    and "resolveExpected b isRemainingPayment = Inr (Expected isReservation (Some a) tok)"
    and "a \<noteq> 0"
    and "getPublicClient e cid"
    and "retryCount < maxRetries"
    and "getTransactionReceipt e retryCount h = ReceiptFound r"
    and "checkReceipt e cid a tok r = Inr (Some f)"
  shows "\<exists>i<length (bookings s). bookings s ! i = b
           \<and> iteration e s bid h cid isRemainingPayment maxRetries retryCount
               = Exit (Inr (failedStore s i b f))
           \<and> verifyLoop e bid h cid isRemainingPayment maxRetries retryCount s
               = Inr (failedStore s i b f)"
proof -
  from iteration_terminal[OF assms(1-4) assms(6) assms(7), where maxRetries = maxRetries]
  obtain i where i: "i < length (bookings s)" "bookings s ! i = b"
    "iteration e s bid h cid isRemainingPayment maxRetries retryCount
       = Exit (Inr (failedStore s i b f))"
    by blast
  with verifyLoop_Exit[OF assms(5) i(3)] show ?thesis by blast
qed

text \<open>
  Claim C6. Take an attempt of the verification loop that reaches a receipt. If the
  receipt's status is not success, the attempt fails with the transaction-failed error,
  whatever the logs (and the configuration) are. Otherwise, for a configured chain and
  token: if no log has the token contract's address and the Transfer signature, it fails
  with the no-transfer-events error; if some logs do but none of them has the treasury as
  recipient, it fails with the wrong-treasury error. In each case the booking's status is
  set to \<open>FAILED\<close>, the error is logged, and \<open>verifyPayment\<close> returns from this
  iteration: the loop does not go round again.
\<close>

theorem receipt_failures_are_terminal:
  assumes "findUnique (bookings s) bid = Some b"
    and "resolveExpected b isRemainingPayment = Inr (Expected isReservation (Some a) tok)"
    and "a \<noteq> 0"
    and "getPublicClient e cid"
    and "retryCount < maxRetries"
    and "getTransactionReceipt e retryCount h = ReceiptFound r"
  shows "(rc_status r \<noteq> success \<longrightarrow>
            (\<exists>i<length (bookings s). bookings s ! i = b
               \<and> iteration e s bid h cid isRemainingPayment maxRetries retryCount
                   = Exit (Inr (failedStore s i b TransactionFailedOnChain))
               \<and> verifyLoop e bid h cid isRemainingPayment maxRetries retryCount s
                   = Inr (failedStore s i b TransactionFailedOnChain)))
       \<and> (rc_status r = success \<and> chainConfig cid = Some chain
            \<and> map_of (tokens chain) tok = Some tokenInfo
            \<and> parseUnits e a (decimals tokenInfo) = Some expectedBaseUnits
            \<and> filter (isTransferLog (toLowerCase (address tokenInfo))) (logs r) = [] \<longrightarrow>
            (\<exists>i<length (bookings s). bookings s ! i = b
               \<and> iteration e s bid h cid isRemainingPayment maxRetries retryCount
                   = Exit (Inr (failedStore s i b NoTransferEvents))
               \<and> verifyLoop e bid h cid isRemainingPayment maxRetries retryCount s
                   = Inr (failedStore s i b NoTransferEvents)))
       \<and> (rc_status r = success \<and> chainConfig cid = Some chain
            \<and> map_of (tokens chain) tok = Some tokenInfo
            \<and> parseUnits e a (decimals tokenInfo) = Some expectedBaseUnits
            \<and> filter (isTransferLog (toLowerCase (address tokenInfo))) (logs r) \<noteq> []
            \<and> (\<forall>l \<in> set (filter (isTransferLog (toLowerCase (address tokenInfo))) (logs r)).
                  \<not> toTreasury l) \<longrightarrow>
            (\<exists>i<length (bookings s). bookings s ! i = b
               \<and> iteration e s bid h cid isRemainingPayment maxRetries retryCount
                   = Exit (Inr (failedStore s i b WrongTreasury))
               \<and> verifyLoop e bid h cid isRemainingPayment maxRetries retryCount s
                   = Inr (failedStore s i b WrongTreasury)))"
proof (intro conjI impI)
  assume "rc_status r \<noteq> success"
  then show "\<exists>i<length (bookings s). bookings s ! i = b
               \<and> iteration e s bid h cid isRemainingPayment maxRetries retryCount
                   = Exit (Inr (failedStore s i b TransactionFailedOnChain))
               \<and> verifyLoop e bid h cid isRemainingPayment maxRetries retryCount s
                   = Inr (failedStore s i b TransactionFailedOnChain)"
    using terminal_failure[OF assms checkReceipt_reverted] by blast
next
  assume h: "rc_status r = success \<and> chainConfig cid = Some chain
            \<and> map_of (tokens chain) tok = Some tokenInfo
            \<and> parseUnits e a (decimals tokenInfo) = Some expectedBaseUnits
            \<and> filter (isTransferLog (toLowerCase (address tokenInfo))) (logs r) = []"
  then have "checkReceipt e cid a tok r = Inr (Some NoTransferEvents)"
    using checkReceipt_no_transfer by blast
  from terminal_failure[OF assms this]
  show "\<exists>i<length (bookings s). bookings s ! i = b
               \<and> iteration e s bid h cid isRemainingPayment maxRetries retryCount
                   = Exit (Inr (failedStore s i b NoTransferEvents))
               \<and> verifyLoop e bid h cid isRemainingPayment maxRetries retryCount s
                   = Inr (failedStore s i b NoTransferEvents)" .
next
  assume h: "rc_status r = success \<and> chainConfig cid = Some chain
            \<and> map_of (tokens chain) tok = Some tokenInfo
            \<and> parseUnits e a (decimals tokenInfo) = Some expectedBaseUnits
            \<and> filter (isTransferLog (toLowerCase (address tokenInfo))) (logs r) \<noteq> []
            \<and> (\<forall>l \<in> set (filter (isTransferLog (toLowerCase (address tokenInfo))) (logs r)).
                  \<not> toTreasury l)"
  then have "checkReceipt e cid a tok r = Inr (Some WrongTreasury)"
    using checkReceipt_wrong_recipient by blast
  from terminal_failure[OF assms this]
  show "\<exists>i<length (bookings s). bookings s ! i = b
               \<and> iteration e s bid h cid isRemainingPayment maxRetries retryCount
                   = Exit (Inr (failedStore s i b WrongTreasury))
               \<and> verifyLoop e bid h cid isRemainingPayment maxRetries retryCount s
                   = Inr (failedStore s i b WrongTreasury)" .
qed

lemma failed_reservation30:
  "failedStore (storeOf [reservation30]) 0 reservation30 f =
     \<lparr>bookings = [reservation30\<lparr>status := FAILED\<rparr>],
      activityLog = [\<lparr>log_booking = ''BK-1'', log_action = payment_status FAILED,
                       log_error = Some f, log_txHash = None\<rparr>],
      outbox = []\<rparr>"
  by (simp add: storeOf_def reservation30_def newBooking_def)

theorem receipt_failures_are_terminal_witness:
  "verifyPayment
     (sampleEnv (\<lambda>_. ReceiptFound
        ((transferReceipt usdcContract treasuryTopic data30)\<lparr>rc_status := reverted\<rparr>)))
     (storeOf [reservation30]) ''BK-1'' sampleTx 10143 False 10
   = Inr \<lparr>bookings = [reservation30\<lparr>status := FAILED\<rparr>],
          activityLog = [\<lparr>log_booking = ''BK-1'', log_action = payment_status FAILED,
                           log_error = Some TransactionFailedOnChain, log_txHash = None\<rparr>],
          outbox = []\<rparr>
   \<and> verifyPayment
     (sampleEnv (\<lambda>_. ReceiptFound
        (transferReceipt ''0x88b8e2161dedc77ef4ab7585569d2415a1c1055d'' treasuryTopic data30)))
     (storeOf [reservation30]) ''BK-1'' sampleTx 10143 False 10
   = Inr \<lparr>bookings = [reservation30\<lparr>status := FAILED\<rparr>],
          activityLog = [\<lparr>log_booking = ''BK-1'', log_action = payment_status FAILED,
                           log_error = Some NoTransferEvents, log_txHash = None\<rparr>],
          outbox = []\<rparr>
   \<and> verifyPayment
     (sampleEnv (\<lambda>_. ReceiptFound (transferReceipt usdcContract strangerTopic data30)))
     (storeOf [reservation30]) ''BK-1'' sampleTx 10143 False 10
   = Inr \<lparr>bookings = [reservation30\<lparr>status := FAILED\<rparr>],
          activityLog = [\<lparr>log_booking = ''BK-1'', log_action = payment_status FAILED,
                           log_error = Some WrongTreasury, log_txHash = None\<rparr>],
          outbox = []\<rparr>"
proof -
  let ?tokenInfo = "\<lparr>address = MONAD_TESTNET_USDC, decimals = 6, symbol = ''USDC''\<rparr>"
  let ?chain = "\<lparr>chain_name = ''Monad Testnet'',
      tokens = [(''USDC'', ?tokenInfo),
                (''USDT'', \<lparr>address = MONAD_TESTNET_USDT, decimals = 6, symbol = ''USDT''\<rparr>)]\<rparr>"
  let ?rA = "(transferReceipt usdcContract treasuryTopic data30)\<lparr>rc_status := reverted\<rparr>"
  let ?rB = "transferReceipt ''0x88b8e2161dedc77ef4ab7585569d2415a1c1055d'' treasuryTopic data30"
  let ?rC = "transferReceipt usdcContract strangerTopic data30"
  have pos: "(30::rat) \<noteq> 0" "(0::nat) < 10" by simp_all
  have tok: "map_of (tokens ?chain) ''USDC'' = Some ?tokenInfo" by simp
  have pu: "parseUnits (sampleEnv replies) 30 (decimals ?tokenInfo) = Some 30000000" for replies
    using sample_base(5) by simp
  have A: "rc_status ?rA \<noteq> success" by (simp add: transferReceipt_def)
  have B: "rc_status ?rB = success"
    "filter (isTransferLog (toLowerCase (address ?tokenInfo))) (logs ?rB) = []"
    by (simp_all add: transferReceipt_def isTransferLog_def toLowerCase_def lowerChar_def
          MONAD_TESTNET_USDC_def)
  have C: "rc_status ?rC = success"
    "filter (isTransferLog (toLowerCase (address ?tokenInfo))) (logs ?rC) \<noteq> []"
    "\<forall>l \<in> set (filter (isTransferLog (toLowerCase (address ?tokenInfo))) (logs ?rC)).
       \<not> toTreasury l"
    using isTransferLog_sample toTreasury_sample(2) by (simp_all add: transferReceipt_def)
  note thA = receipt_failures_are_terminal[OF sample_base(1,2) pos(1) sample_base(3) pos(2),
      of "\<lambda>_. ReceiptFound ?rA" sampleTx ?rA]
  note thB = receipt_failures_are_terminal[OF sample_base(1,2) pos(1) sample_base(3) pos(2),
      of "\<lambda>_. ReceiptFound ?rB" sampleTx ?rB ?chain ?tokenInfo 30000000]
  note thC = receipt_failures_are_terminal[OF sample_base(1,2) pos(1) sample_base(3) pos(2),
      of "\<lambda>_. ReceiptFound ?rC" sampleTx ?rC ?chain ?tokenInfo 30000000]
  have 1: "verifyPayment (sampleEnv (\<lambda>_. ReceiptFound ?rA)) (storeOf [reservation30])
             ''BK-1'' sampleTx 10143 False 10
           = Inr (failedStore (storeOf [reservation30]) 0 reservation30 TransactionFailedOnChain)"
    using thA A sample_base(4) by (auto simp: verifyPayment_def storeOf_def)
  have 2: "verifyPayment (sampleEnv (\<lambda>_. ReceiptFound ?rB)) (storeOf [reservation30])
             ''BK-1'' sampleTx 10143 False 10
           = Inr (failedStore (storeOf [reservation30]) 0 reservation30 NoTransferEvents)"
    using thB B chainConfig_monad tok pu sample_base(4)
    by (auto simp: verifyPayment_def storeOf_def)
  have 3: "verifyPayment (sampleEnv (\<lambda>_. ReceiptFound ?rC)) (storeOf [reservation30])
             ''BK-1'' sampleTx 10143 False 10
           = Inr (failedStore (storeOf [reservation30]) 0 reservation30 WrongTreasury)"
    using thC C chainConfig_monad tok pu sample_base(4)
    by (auto simp: verifyPayment_def storeOf_def)
  show ?thesis
    unfolding 1 2 3 failed_reservation30 by simp
qed

section \<open>Exhaustion of the retry budget\<close>

lemma tryBody_receipt_null:
  assumes "findUnique (bookings s) bid = Some b"
    and "resolveExpected b isRemainingPayment = Inr (Expected isReservation (Some a) tok)"
    and "a \<noteq> 0"
    and "getPublicClient e cid"
    and "getTransactionReceipt e retryCount h = ReceiptNull"
  shows "tryBody e s bid h cid isRemainingPayment retryCount = ReceiptMissing"
  using assms resolveExpected_token_nonempty[OF assms(2)]
  by (simp add: tryBody_def falsyNum_def)

lemma tryBody_receipt_throws:
  assumes "findUnique (bookings s) bid = Some b"
    and "resolveExpected b isRemainingPayment = Inr (Expected isReservation (Some a) tok)"
    and "a \<noteq> 0"
    and "getPublicClient e cid"
    and "getTransactionReceipt e retryCount h = ReceiptThrows"
  shows "tryBody e s bid h cid isRemainingPayment retryCount = Throw ReceiptFetchError"
  using assms resolveExpected_token_nonempty[OF assms(2)]
  by (simp add: tryBody_def falsyNum_def)

text \<open>
  Claim C5, as amended. Let the verification reach the receipt fetch (the booking exists,
  its phase is not already verified, amount and token are locked, the chain has a
  client), and let the fetch find no receipt on every one of the \<open>maxRetries\<close> attempts,
  for any positive \<open>maxRetries\<close> (10 by default): the client throws, as the client of
  the repository does, or returns null. Then every iteration but the last goes round
  again with the store exactly as it was, and the last one sets the booking's status to
  \<open>FAILED\<close> with one entry in the activity log, which is what \<open>verifyPayment\<close>
  returns. The entry carries the timeout error when the last fetch returned null, and
  the thrown error with the number of attempts when the last fetch threw. The delay
  between attempts is a sleep and is not part of the model.
\<close>

theorem receipt_never_found_fails:
  assumes "findUnique (bookings s) bid = Some b"
    and "resolveExpected b isRemainingPayment = Inr (Expected isReservation (Some a) tok)"
    and "a \<noteq> 0"
    and "getPublicClient e cid"
    and "0 < maxRetries"
    and "\<forall>k<maxRetries. getTransactionReceipt e k h = ReceiptThrows
                         \<or> getTransactionReceipt e k h = ReceiptNull"
  shows "(\<forall>k. k + 1 < maxRetries \<longrightarrow>
            iteration e s bid h cid isRemainingPayment maxRetries k = Again (k + 1) s)
       \<and> (\<exists>i<length (bookings s). bookings s ! i = b
            \<and> verifyPayment e s bid h cid isRemainingPayment maxRetries
                = Inr (failedStore s i b
                         (if getTransactionReceipt e (maxRetries - 1) h = ReceiptNull
                          then TransactionTimeout
                          else AttemptsFailed ReceiptFetchError maxRetries)))"
proof -
  have again: "iteration e s bid h cid isRemainingPayment maxRetries k = Again (k + 1) s"
    if "k + 1 < maxRetries" for k
  proof -
    from that have "k < maxRetries" by simp
    with assms(6) consider "getTransactionReceipt e k h = ReceiptThrows"
      | "getTransactionReceipt e k h = ReceiptNull" by blast
    then show ?thesis
    proof cases
      case 1
      from iteration_throws(1)[OF tryBody_receipt_throws[OF assms(1-4) 1] assms(1) that]
      show ?thesis .
    next
      case 2
      from iteration_missing(1)[OF tryBody_receipt_null[OF assms(1-4) 2] assms(1) that]
      show ?thesis .
    qed
  qed
  have first: "verifyPayment e s bid h cid isRemainingPayment maxRetries
                 = verifyLoop e bid h cid isRemainingPayment maxRetries (maxRetries - 1) s"
    unfolding verifyPayment_def using verifyLoop_all_again[OF again assms(5)] by simp
  have last: "\<not> (maxRetries - 1) + 1 < maxRetries" and lt: "maxRetries - 1 < maxRetries"
    using assms(5) by simp_all
  from lt assms(6) consider "getTransactionReceipt e (maxRetries - 1) h = ReceiptThrows"
    | "getTransactionReceipt e (maxRetries - 1) h = ReceiptNull" by blast
  then have "\<exists>i<length (bookings s). bookings s ! i = b
            \<and> verifyPayment e s bid h cid isRemainingPayment maxRetries
                = Inr (failedStore s i b
                         (if getTransactionReceipt e (maxRetries - 1) h = ReceiptNull
                          then TransactionTimeout
                          else AttemptsFailed ReceiptFetchError maxRetries))"
  proof cases
    case 1
    from iteration_throws(2)[OF tryBody_receipt_throws[OF assms(1-4) 1] assms(1) last] assms(5)
    obtain i where i: "i < length (bookings s)" "bookings s ! i = b"
      "iteration e s bid h cid isRemainingPayment maxRetries (maxRetries - 1)
         = Again maxRetries
             (failedStore s i b (AttemptsFailed ReceiptFetchError maxRetries))"
      by auto
    have "verifyLoop e bid h cid isRemainingPayment maxRetries (maxRetries - 1) s
            = verifyLoop e bid h cid isRemainingPayment maxRetries maxRetries
                (failedStore s i b (AttemptsFailed ReceiptFetchError maxRetries))"
      using verifyLoop_Again[OF lt i(3)] .
    also have "\<dots> = Inr (failedStore s i b (AttemptsFailed ReceiptFetchError maxRetries))"
      by (simp add: verifyLoop_done)
    finally show ?thesis using first i 1 by auto
  next
    case 2
    from iteration_missing(2)[OF tryBody_receipt_null[OF assms(1-4) 2] assms(1) last] assms(5)
    obtain i where i: "i < length (bookings s)" "bookings s ! i = b"
      "iteration e s bid h cid isRemainingPayment maxRetries (maxRetries - 1)
         = Exit (Inr (failedStore s i b TransactionTimeout))"
      by auto
    from verifyLoop_Exit[OF lt i(3)] first i 2 show ?thesis by auto
  qed
  with again show ?thesis by blast
qed

theorem receipt_never_found_fails_witness:
  "iteration (sampleEnv (\<lambda>_. ReceiptThrows)) (storeOf [reservation30]) ''BK-1'' sampleTx 10143
      False 10 8 = Again 9 (storeOf [reservation30])
   \<and> verifyPayment (sampleEnv (\<lambda>_. ReceiptThrows)) (storeOf [reservation30]) ''BK-1'' sampleTx
      10143 False 10
     = Inr \<lparr>bookings = [reservation30\<lparr>status := FAILED\<rparr>],
            activityLog = [\<lparr>log_booking = ''BK-1'', log_action = payment_status FAILED,
                             log_error = Some (AttemptsFailed ReceiptFetchError 10),
                             log_txHash = None\<rparr>],
            outbox = []\<rparr>
   \<and> verifyPayment (sampleEnv (\<lambda>_. ReceiptNull)) (storeOf [reservation30]) ''BK-1'' sampleTx
      10143 False 10
     = Inr \<lparr>bookings = [reservation30\<lparr>status := FAILED\<rparr>],
            activityLog = [\<lparr>log_booking = ''BK-1'', log_action = payment_status FAILED,
                             log_error = Some TransactionTimeout, log_txHash = None\<rparr>],
            outbox = []\<rparr>"
proof -
  have pos: "(30::rat) \<noteq> 0" "(0::nat) < 10" by simp_all
  have thr: "\<forall>k<10. getTransactionReceipt (sampleEnv (\<lambda>_. ReceiptThrows)) k sampleTx = ReceiptThrows
               \<or> getTransactionReceipt (sampleEnv (\<lambda>_. ReceiptThrows)) k sampleTx = ReceiptNull"
    and nul: "\<forall>k<10. getTransactionReceipt (sampleEnv (\<lambda>_. ReceiptNull)) k sampleTx = ReceiptThrows
               \<or> getTransactionReceipt (sampleEnv (\<lambda>_. ReceiptNull)) k sampleTx = ReceiptNull"
    using sample_base(4) by simp_all
  from receipt_never_found_fails[OF sample_base(1,2) pos(1) sample_base(3) pos(2) thr]
  have 1: "iteration (sampleEnv (\<lambda>_. ReceiptThrows)) (storeOf [reservation30]) ''BK-1'' sampleTx
          10143 False 10 8 = Again (8 + 1) (storeOf [reservation30])"
    and 2: "verifyPayment (sampleEnv (\<lambda>_. ReceiptThrows)) (storeOf [reservation30]) ''BK-1''
          sampleTx 10143 False 10
         = Inr (failedStore (storeOf [reservation30]) 0 reservation30
                  (AttemptsFailed ReceiptFetchError 10))"
    by (auto simp: storeOf_def sample_base(4))
  from receipt_never_found_fails[OF sample_base(1,2) pos(1) sample_base(3) pos(2) nul]
  have 3: "verifyPayment (sampleEnv (\<lambda>_. ReceiptNull)) (storeOf [reservation30]) ''BK-1''
          sampleTx 10143 False 10
         = Inr (failedStore (storeOf [reservation30]) 0 reservation30 TransactionTimeout)"
    by (auto simp: storeOf_def sample_base(4))
  show ?thesis using 1 unfolding 2 3 failed_reservation30 by simp
qed

text \<open>
  Claim C5 as stated ends a verification whose receipt is never found with the timeout
  reason. The client of the repository throws when there is no receipt; ten such attempts
  end with the booking \<open>FAILED\<close> and the thrown error, with the attempt count, as the
  reason in the activity log.
\<close>

theorem receipt_fetch_throws_counterexample:
  "verifyPayment (sampleEnv (\<lambda>_. ReceiptThrows)) (storeOf [reservation30]) ''BK-1'' sampleTx
      10143 False 10
     = Inr \<lparr>bookings = [reservation30\<lparr>status := FAILED\<rparr>],
            activityLog = [\<lparr>log_booking = ''BK-1'', log_action = payment_status FAILED,
                             log_error = Some (AttemptsFailed ReceiptFetchError 10),
                             log_txHash = None\<rparr>],
            outbox = []\<rparr>"
proof -
  let ?e = "sampleEnv (\<lambda>_. ReceiptThrows)"
  have pos: "(30::rat) \<noteq> 0" "(0::nat) < 10" by simp_all
  have t: "tryBody ?e (storeOf [reservation30]) ''BK-1'' sampleTx 10143 False k
             = Throw ReceiptFetchError" for k
    by (rule tryBody_receipt_throws[OF sample_base(1,2) pos(1) sample_base(3)])
       (simp add: sample_base(4))
  from always_throws[OF sample_base(1) pos(2), of ?e sampleTx 10143 False ReceiptFetchError,
      OF t]
  have "verifyPayment ?e (storeOf [reservation30]) ''BK-1'' sampleTx 10143 False 10
         = Inr (failedStore (storeOf [reservation30]) 0 reservation30
                  (AttemptsFailed ReceiptFetchError 10))"
    by (auto simp: storeOf_def)
  then show ?thesis unfolding failed_reservation30 by simp
qed

section \<open>Unconfigured chain or token at verification time\<close>

lemma tryBody_no_client:
  assumes "findUnique (bookings s) bid = Some b"
    and "resolveExpected b isRemainingPayment = Inr (Expected isReservation (Some a) tok)"
    and "a \<noteq> 0"
    and "\<not> getPublicClient e cid"
  shows "tryBody e s bid h cid isRemainingPayment retryCount = Throw (NoClientConfigured cid)"
  using assms resolveExpected_token_nonempty[OF assms(2)]
  by (simp add: tryBody_def falsyNum_def)

lemma tryBody_no_token:
  assumes "findUnique (bookings s) bid = Some b"
    and "resolveExpected b isRemainingPayment = Inr (Expected isReservation (Some a) tok)"
    and "a \<noteq> 0"
    and "getPublicClient e cid"
    and "getTransactionReceipt e retryCount h = ReceiptFound r"
    and "rc_status r = success"
    and "chainConfig cid = Some chain" and "map_of (tokens chain) tok = None"
  shows "tryBody e s bid h cid isRemainingPayment retryCount = Throw (TokenNotConfigured tok cid)"
proof -
  have "checkReceipt e cid a tok r = Inl (TokenNotConfigured tok cid)"
    using assms(6-8) by (simp add: checkReceipt_def)
  with tryBody_at_receipt[OF assms(1-5)] show ?thesis by simp
qed

text \<open>
  Claim C9, as amended. At verification time a chain without a client, or a token that
  the chain's configuration does not list, makes the attempt throw an error that names
  the chain or the token. The error is handled like every other thrown error: each
  attempt but the last is retried with the store unchanged, and after \<open>maxRetries\<close>
  attempts the booking's status is set to \<open>FAILED\<close>, with that error and the number of
  attempts in the activity log. (For the token, the attempts are those that find the
  receipt of a successful transaction, since the token is looked up after the receipt.)
\<close>

theorem unconfigured_is_retried:
  assumes "findUnique (bookings s) bid = Some b"
    and "resolveExpected b isRemainingPayment = Inr (Expected isReservation (Some a) tok)"
    and "a \<noteq> 0"
    and "0 < maxRetries"
  shows "(\<not> getPublicClient e cid \<longrightarrow>
            (\<forall>k. k + 1 < maxRetries \<longrightarrow>
               iteration e s bid h cid isRemainingPayment maxRetries k = Again (k + 1) s)
            \<and> (\<exists>i<length (bookings s). bookings s ! i = b
                 \<and> verifyPayment e s bid h cid isRemainingPayment maxRetries
                     = Inr (failedStore s i b
                              (AttemptsFailed (NoClientConfigured cid) maxRetries))))
       \<and> (getPublicClient e cid
            \<and> (\<forall>k<maxRetries. \<exists>r. getTransactionReceipt e k h = ReceiptFound r
                                    \<and> rc_status r = success)
            \<and> chainConfig cid = Some chain \<and> map_of (tokens chain) tok = None \<longrightarrow>
            (\<forall>k. k + 1 < maxRetries \<longrightarrow>
               iteration e s bid h cid isRemainingPayment maxRetries k = Again (k + 1) s)
            \<and> (\<exists>i<length (bookings s). bookings s ! i = b
                 \<and> verifyPayment e s bid h cid isRemainingPayment maxRetries
                     = Inr (failedStore s i b
                              (AttemptsFailed (TokenNotConfigured tok cid) maxRetries))))"
proof (intro conjI impI)
  assume nc: "\<not> getPublicClient e cid"
  note r = always_throws[OF assms(1) assms(4), of e h cid isRemainingPayment
             "NoClientConfigured cid", OF tryBody_no_client[OF assms(1-3) nc]]
  from r show "\<forall>k. k + 1 < maxRetries \<longrightarrow>
               iteration e s bid h cid isRemainingPayment maxRetries k = Again (k + 1) s"
    by blast
  from r show "\<exists>i<length (bookings s). bookings s ! i = b
                 \<and> verifyPayment e s bid h cid isRemainingPayment maxRetries
                     = Inr (failedStore s i b
                              (AttemptsFailed (NoClientConfigured cid) maxRetries))"
    by blast
next
  assume h: "getPublicClient e cid
            \<and> (\<forall>k<maxRetries. \<exists>r. getTransactionReceipt e k h = ReceiptFound r
                                    \<and> rc_status r = success)
            \<and> chainConfig cid = Some chain \<and> map_of (tokens chain) tok = None"
  have t: "tryBody e s bid h cid isRemainingPayment k = Throw (TokenNotConfigured tok cid)"
    if "k < maxRetries" for k
  proof -
    from h that obtain r where "getTransactionReceipt e k h = ReceiptFound r"
      "rc_status r = success" by blast
    with tryBody_no_token[OF assms(1-3)] h show ?thesis by blast
  qed
  note r = always_throws[OF assms(1) assms(4), of e h cid isRemainingPayment
             "TokenNotConfigured tok cid", OF t]
  from r show "\<forall>k. k + 1 < maxRetries \<longrightarrow>
               iteration e s bid h cid isRemainingPayment maxRetries k = Again (k + 1) s"
    by blast
  from r show "\<exists>i<length (bookings s). bookings s ! i = b
                 \<and> verifyPayment e s bid h cid isRemainingPayment maxRetries
                     = Inr (failedStore s i b
                              (AttemptsFailed (TokenNotConfigured tok cid) maxRetries))"
    by blast
qed

lemma dai30_base:
  "findUnique (bookings (storeOf [dai30])) ''BK-1'' = Some dai30"
  "resolveExpected dai30 False = Inr (Expected False (Some 30) ''DAI'')"
  by (simp_all add: findUnique_def storeOf_def dai30_def newBooking_def
        resolveExpected_def isReservationPayment_def orElse_def)

lemma failed_dai30:
  "failedStore (storeOf [dai30]) 0 dai30 f =
     \<lparr>bookings = [dai30\<lparr>status := FAILED\<rparr>],
      activityLog = [\<lparr>log_booking = ''BK-1'', log_action = payment_status FAILED,
                       log_error = Some f, log_txHash = None\<rparr>],
      outbox = []\<rparr>"
  by (simp add: storeOf_def dai30_def newBooking_def)

theorem unconfigured_is_retried_witness:
  "verifyPayment
     (sampleEnv (\<lambda>_. ReceiptFound (transferReceipt usdcContract treasuryTopic data30)))
     (storeOf [dai30]) ''BK-1'' sampleTx 10143 False 10
   = Inr \<lparr>bookings = [dai30\<lparr>status := FAILED\<rparr>],
          activityLog = [\<lparr>log_booking = ''BK-1'', log_action = payment_status FAILED,
             log_error = Some (AttemptsFailed (TokenNotConfigured ''DAI'' 10143) 10),
             log_txHash = None\<rparr>],
          outbox = []\<rparr>
   \<and> verifyPayment
     (sampleEnv (\<lambda>_. ReceiptFound (transferReceipt usdcContract treasuryTopic data30)))
     (storeOf [reservation30]) ''BK-1'' sampleTx 1 False 10
   = Inr \<lparr>bookings = [reservation30\<lparr>status := FAILED\<rparr>],
          activityLog = [\<lparr>log_booking = ''BK-1'', log_action = payment_status FAILED,
             log_error = Some (AttemptsFailed (NoClientConfigured 1) 10),
             log_txHash = None\<rparr>],
          outbox = []\<rparr>"
proof -
  let ?r = "transferReceipt usdcContract treasuryTopic data30"
  let ?e = "sampleEnv (\<lambda>_. ReceiptFound ?r)"
  let ?chain = "\<lparr>chain_name = ''Monad Testnet'',
      tokens = [(''USDC'', \<lparr>address = MONAD_TESTNET_USDC, decimals = 6, symbol = ''USDC''\<rparr>),
                (''USDT'', \<lparr>address = MONAD_TESTNET_USDT, decimals = 6, symbol = ''USDT''\<rparr>)]\<rparr>"
  have pos: "(30::rat) \<noteq> 0" "(0::nat) < 10" by simp_all
  have found: "\<forall>k<10. \<exists>r. getTransactionReceipt ?e k sampleTx = ReceiptFound r
                         \<and> rc_status r = success"
    using sample_base(4) by (simp add: transferReceipt_def)
  have notok: "map_of (tokens ?chain) ''DAI'' = None" by simp
  have noclient: "\<not> getPublicClient ?e 1" by (simp add: getPublicClient_def)
  from unconfigured_is_retried[OF dai30_base pos, of ?e 10143 sampleTx ?chain]
    sample_base(3) found chainConfig_monad notok
  have 1: "verifyPayment ?e (storeOf [dai30]) ''BK-1'' sampleTx 10143 False 10
           = Inr (failedStore (storeOf [dai30]) 0 dai30
                    (AttemptsFailed (TokenNotConfigured ''DAI'' 10143) 10))"
    by (auto simp: storeOf_def)
  from unconfigured_is_retried[OF sample_base(1,2) pos, of ?e 1 sampleTx] noclient
  have 2: "verifyPayment ?e (storeOf [reservation30]) ''BK-1'' sampleTx 1 False 10
           = Inr (failedStore (storeOf [reservation30]) 0 reservation30
                    (AttemptsFailed (NoClientConfigured 1) 10))"
    by (auto simp: storeOf_def)
  show ?thesis unfolding 1 2 failed_dai30 failed_reservation30 by simp
qed

text \<open>
  Claim C9 as stated has an unconfigured token never retried inside the loop. For a
  booking locked to a token the chain does not configure, the first of ten attempts
  changes nothing and hands over to the second attempt.
\<close>

theorem unconfigured_token_retried_counterexample:
  "iteration
     (sampleEnv (\<lambda>_. ReceiptFound (transferReceipt usdcContract treasuryTopic data30)))
     (storeOf [dai30]) ''BK-1'' sampleTx 10143 False 10 0
   = Again 1 (storeOf [dai30])"
proof -
  let ?r = "transferReceipt usdcContract treasuryTopic data30"
  let ?e = "sampleEnv (\<lambda>_. ReceiptFound ?r)"
  have "tryBody ?e (storeOf [dai30]) ''BK-1'' sampleTx 10143 False 0
          = Throw (TokenNotConfigured ''DAI'' 10143)"
    using tryBody_no_token[where e = ?e and r = ?r and retryCount = 0 and h = sampleTx,
        OF dai30_base _ sample_base(3) _ _ chainConfig_monad]
    by (simp add: sample_base(4) transferReceipt_def)
  from iteration_throws(1)[OF this dai30_base(1), of 10] show ?thesis by simp
qed

section \<open>The success path: basic facts\<close>

lemma confirmPayment_found:
  assumes "findUnique (bookings s) bid = Some x"
  shows "\<exists>i<length (bookings s). bookings s ! i = x \<and>
           confirmPayment e s b bid h cid isReservation isRemainingPayment a tok r tx =
             Inr (if isReservation then
                    sendTo e b ReservationConfirmedEmail h (Some a) True
                      (logPaid b reservation_paid h
                         (s\<lparr>bookings := (bookings s)[i := reservedData e h cid tok r tx x]\<rparr>))
                  else if isRemainingPayment then
                    sendTo e b ConfirmationEmail h
                      (Some ((case reservationAmount b of None \<Rightarrow> 0 | Some y \<Rightarrow> y) + a)) False
                      (logPaid b remaining_payment_confirmed h
                         (s\<lparr>bookings := (bookings s)[i := remainingData e h cid tok
                              ((case reservationAmount b of None \<Rightarrow> 0 | Some y \<Rightarrow> y) + a) x]\<rparr>))
                  else
                    sendTo e b ConfirmationEmail h (paymentAmount b) False
                      (logPaid b payment_confirmed h
                         (s\<lparr>bookings := (bookings s)[i := fullData e (paymentAmount b) r tx x]\<rparr>)))"
proof -
  from updateWhere_row[OF assms] obtain i where i: "i < length (bookings s)"
    "bookings s ! i = x" "\<And>f. updateWhere bid f (bookings s) = Some ((bookings s)[i := f x])"
    by blast
  show ?thesis
    by (intro exI[of _ i]) (simp add: i confirmPayment_def Let_def)
qed

lemma sample_checkReceipt:
  "checkReceipt (sampleEnv replies) 10143 30 ''USDC'' sampleReceipt = Inr None"
proof -
  let ?tokenInfo = "\<lparr>address = MONAD_TESTNET_USDC, decimals = 6, symbol = ''USDC''\<rparr>"
  let ?chain = "\<lparr>chain_name = ''Monad Testnet'',
      tokens = [(''USDC'', ?tokenInfo),
                (''USDT'', \<lparr>address = MONAD_TESTNET_USDT, decimals = 6, symbol = ''USDT''\<rparr>)]\<rparr>"
  let ?l = "\<lparr>ev_address = usdcContract,
             ev_topics = [TRANSFER_TOPIC,
               ''0x00000000000000000000000070997970c51812dc3a010c7d01b50e0d17dc79c8'',
               treasuryTopic],
             ev_data = data30\<rparr>"
  have 1: "rc_status sampleReceipt = success"
    by (simp add: sampleReceipt_def transferReceipt_def)
  have 2: "map_of (tokens ?chain) ''USDC'' = Some ?tokenInfo" by simp
  have 3: "parseUnits (sampleEnv replies) 30 (decimals ?tokenInfo) = Some 30000000"
    using sample_base(5) by simp
  have 4: "List.find toTreasury
             (filter (isTransferLog (toLowerCase (address ?tokenInfo))) (logs sampleReceipt))
           = Some ?l"
    using isTransferLog_sample toTreasury_sample(1)
    by (simp add: sampleReceipt_def transferReceipt_def)
  have 5: "BigInt (ev_data ?l) = Some 30000000" using BigInt_data(1) by simp
  from checkReceipt_mismatch[OF 1 chainConfig_monad 2 3 4 5] show ?thesis by simp
qed

text \<open>On the sample node, verifying a booking whose expectation is 30 USDC succeeds at the
  first attempt.\<close>

lemma sample_verify_succeeds:
  assumes "findUnique (bookings s) bid = Some b"
    and "resolveExpected b isRemainingPayment = Inr (Expected isReservation (Some 30) ''USDC'')"
  shows "\<exists>i<length (bookings s). bookings s ! i = b \<and>
           verifyPayment sampleNode s bid sampleTx 10143 isRemainingPayment 10 =
             confirmPayment sampleNode s b bid sampleTx 10143 isReservation isRemainingPayment
               30 ''USDC'' sampleReceipt
               \<lparr>tx_from = ''0x70997970c51812dc3a010c7d01b50e0d17dc79c8'', gasPrice = Some 52\<rparr>"
proof -
  let ?tx = "\<lparr>tx_from = ''0x70997970c51812dc3a010c7d01b50e0d17dc79c8'', gasPrice = Some 52\<rparr>"
  have pos: "(30::rat) \<noteq> 0" by simp
  have rc: "getTransactionReceipt sampleNode 0 sampleTx = ReceiptFound sampleReceipt"
    and tx: "getTransaction sampleNode 0 sampleTx = Some ?tx"
    and cl: "getPublicClient sampleNode 10143"
    by (simp_all add: sampleNode_def sampleEnv_def getPublicClient_def)
  have ok: "checkReceipt sampleNode 10143 30 ''USDC'' sampleReceipt = Inr None"
    unfolding sampleNode_def by (rule sample_checkReceipt)
  from confirmPayment_found[OF assms(1), where e = sampleNode and b = b and h = sampleTx
      and cid = 10143 and isReservation = isReservation
      and isRemainingPayment = isRemainingPayment and a = 30 and tok = "''USDC''"
      and r = sampleReceipt and tx = ?tx]
  obtain i s' where i: "i < length (bookings s)"
    "bookings s ! i = b"
    "confirmPayment sampleNode s b bid sampleTx 10143 isReservation isRemainingPayment
       30 ''USDC'' sampleReceipt ?tx = Inr s'"
    by blast
  have "tryBody sampleNode s bid sampleTx 10143 isRemainingPayment 0 = Return s'"
    using tryBody_at_receipt[OF assms pos cl rc] ok tx i(3) by simp
  then have "iteration sampleNode s bid sampleTx 10143 isRemainingPayment 10 0 = Exit (Inr s')"
    by (simp add: iteration_def)
  from verifyLoop_Exit[OF _ this] have "verifyPayment sampleNode s bid sampleTx 10143
      isRemainingPayment 10 = Inr s'"
    by (simp add: verifyPayment_def)
  with i show ?thesis by auto
qed

section \<open>Replay of a transaction hash\<close>

subsection \<open>Rows of other bookings are never written\<close>

lemma updateWhere_others:
  assumes "updateWhere bid f bs = Some bs'" and "x \<in> set bs'" and "bookingId x \<noteq> bid"
    and "\<And>y. bookingId (f y) = bookingId y"
  shows "x \<in> set bs"
  using assms(1,2)
proof (induction bs arbitrary: bs')
  case Nil
  then show ?case by simp
next
  case (Cons a bs)
  show ?case
  proof (cases "bookingId a = bid")
    case True
    with Cons.prems assms(3,4) show ?thesis by auto
  next
    case False
    with Cons.prems obtain cs where "updateWhere bid f bs = Some cs" "bs' = a # cs"
      by auto
    with Cons.IH[of cs] Cons.prems(2) show ?thesis by auto
  qed
qed

lemma updateBookingStatus_others:
  assumes "updateBookingStatus s bid st details = Inr s'"
    and "x \<in> set (bookings s')" and "bookingId x \<noteq> bid"
  shows "x \<in> set (bookings s)"
proof -
  from assms(1) obtain bs' where u: "updateWhere bid (\<lambda>b. b\<lparr>status := st\<rparr>) (bookings s) = Some bs'"
    and "bookings s' = bs'"
    by (auto simp: updateBookingStatus_def split: option.splits)
  with assms(2) have "x \<in> set bs'" by simp
  from updateWhere_others[OF u this assms(3)] show ?thesis by simp
qed

lemma bookings_sendTo [simp]: "bookings (sendTo e b k h amt logFailure s) = bookings s"
  by (simp add: sendTo_def Let_def split: option.splits)

lemma bookings_logPaid [simp]: "bookings (logPaid b a h s) = bookings s"
  by (simp add: logPaid_def)

lemma confirmPayment_others:
  assumes "confirmPayment e s b bid h cid isReservation isRemainingPayment a tok r tx = Inr s'"
    and "x \<in> set (bookings s')" and "bookingId x \<noteq> bid"
  shows "x \<in> set (bookings s)"
proof -
  from assms(1) obtain f bs' where u: "updateWhere bid f (bookings s) = Some bs'"
    and b: "bookings s' = bs'" and k: "\<forall>y. bookingId (f y) = bookingId y"
    by (auto simp: confirmPayment_def Let_def reservedData_def remainingData_def fullData_def
        split: if_splits option.splits)
  from assms(2) b have "x \<in> set bs'" by simp
  from updateWhere_others[OF u this assms(3)] k show ?thesis by simp
qed

lemma failWith_others:
  assumes "failWith s bid f = Return s'" and "x \<in> set (bookings s')" and "bookingId x \<noteq> bid"
  shows "x \<in> set (bookings s)"
  using assms updateBookingStatus_others
  by (auto simp: failWith_def split: sum.splits)

lemma tryBody_others:
  assumes "tryBody e s bid h cid isRemainingPayment retryCount = Return s'"
    and "x \<in> set (bookings s')" and "bookingId x \<noteq> bid"
  shows "x \<in> set (bookings s)"
  using assms failWith_others confirmPayment_others
  by (auto simp: tryBody_def
      split: option.splits sum.splits resolution.splits if_splits receipt_reply.splits)

lemma iteration_others:
  assumes "iteration e s bid h cid isRemainingPayment maxRetries retryCount = Exit (Inr s')
           \<or> iteration e s bid h cid isRemainingPayment maxRetries retryCount = Again k s'"
    and "x \<in> set (bookings s')" and "bookingId x \<noteq> bid"
  shows "x \<in> set (bookings s)"
  using assms tryBody_others updateBookingStatus_others
  by (auto simp: iteration_def catchBlock_def Let_def
      split: attempt.splits sum.splits if_splits)

lemma verifyLoop_others:
  "verifyLoop e bid h cid isRemainingPayment maxRetries retryCount s = Inr s' \<Longrightarrow>
   x \<in> set (bookings s') \<Longrightarrow> bookingId x \<noteq> bid \<Longrightarrow> x \<in> set (bookings s)"
proof (induction e bid h cid isRemainingPayment maxRetries retryCount s rule: verifyLoop.induct)
  case (1 e bid h cid isRemainingPayment maxRetries retryCount s)
  show ?case
  proof (cases "retryCount < maxRetries")
    case False
    with "1.prems" show ?thesis by (simp add: verifyLoop_done)
  next
    case True
    show ?thesis
    proof (cases "iteration e s bid h cid isRemainingPayment maxRetries retryCount")
      case (Exit res)
      with True "1.prems"(1) have "res = Inr s'" by (simp add: verifyLoop_Exit)
      with Exit have "iteration e s bid h cid isRemainingPayment maxRetries retryCount
                        = Exit (Inr s')" by simp
      then show ?thesis
        using iteration_others[of e s bid h cid isRemainingPayment maxRetries retryCount s' 0 x]
          "1.prems"(2,3) by blast
    next
      case (Again k s1)
      with True "1.prems"(1) have "verifyLoop e bid h cid isRemainingPayment maxRetries k s1
                                     = Inr s'" by (simp add: verifyLoop_Again)
      from "1.IH"[OF True Again this "1.prems"(2,3)] have "x \<in> set (bookings s1)" .
      then show ?thesis
        using iteration_others[of e s bid h cid isRemainingPayment maxRetries retryCount s1 k x]
          Again "1.prems"(3) by blast
    qed
  qed
qed

lemma submitPayment_accepted:
  assumes "submitPayment s rq = (Accepted pt, s1, Some j)"
    and "req_bookingId rq = Some bid" and "req_txHash rq = Some h"
  shows "\<not> checkTransactionUsed (bookings s) h"
    and "job_bookingId j = bid"
    and "\<And>x. x \<in> set (bookings s1) \<Longrightarrow> bookingId x \<noteq> bid \<Longrightarrow> x \<in> set (bookings s)"
proof -
  from assms obtain rr cid bs' where
    u: "updateWhere bid (recordHash (req_isRemainingPayment rq) rr h cid) (bookings s) = Some bs'"
    and s1: "bookings s1 = bs'" and nu: "\<not> checkTransactionUsed (bookings s) h"
    and jb: "job_bookingId j = bid"
    by (auto simp: submitPayment_def split: option.splits if_splits)
  show "\<not> checkTransactionUsed (bookings s) h" by (rule nu)
  show "job_bookingId j = bid" by (rule jb)
  show "x \<in> set (bookings s)" if "x \<in> set (bookings s1)" "bookingId x \<noteq> bid" for x
    using updateWhere_others[OF u _ that(2)] that(1) s1 by (simp add: recordHash_def)
qed

subsection \<open>The update of the success path and the sample scenario\<close>

lemma confirmPayment_row:
  assumes "findUnique (bookings s) bid = Some x"
  shows "\<exists>s' y. confirmPayment e s b bid h cid isReservation isRemainingPayment a tok r tx = Inr s'
           \<and> findUnique (bookings s') bid = Some y
           \<and> status y = (if isReservation then RESERVED else CONFIRMED)"
proof -
  from updateWhere_row[OF assms] obtain i where i: "i < length (bookings s)"
    "bookings s ! i = x" "\<And>f. updateWhere bid f (bookings s) = Some ((bookings s)[i := f x])"
    by blast
  have key: "bookingId x = bid" by (rule findUnique_Some_key[OF assms])
  have fu: "findUnique ((bookings s)[i := f x]) bid = Some (f x)" if "bookingId (f x) = bid" for f
    using updateWhere_findUnique_same[OF assms i(3)[of f] that] .
  let ?paid = "(case reservationAmount b of None \<Rightarrow> 0 | Some y \<Rightarrow> y) + a"
  have 1: "findUnique ((bookings s)[i := reservedData e h cid tok r tx x]) bid
             = Some (reservedData e h cid tok r tx x)"
    "status (reservedData e h cid tok r tx x) = RESERVED"
    using fu[of "reservedData e h cid tok r tx"] key by (simp_all add: reservedData_def)
  have 2: "findUnique ((bookings s)[i := remainingData e h cid tok ?paid x]) bid
             = Some (remainingData e h cid tok ?paid x)"
    "status (remainingData e h cid tok ?paid x) = CONFIRMED"
    using fu[of "remainingData e h cid tok ?paid"] key by (simp_all add: remainingData_def)
  have 3: "findUnique ((bookings s)[i := fullData e (paymentAmount b) r tx x]) bid
             = Some (fullData e (paymentAmount b) r tx x)"
    "status (fullData e (paymentAmount b) r tx x) = CONFIRMED"
    using fu[of "fullData e (paymentAmount b) r tx"] key by (simp_all add: fullData_def)
  show ?thesis
    by (simp add: confirmPayment_def Let_def i(3) 1 2 3)
qed

lemma sample_full_run:
  assumes "findUnique (bookings s) bid = Some (submittedRow b)"
    and "b = fullA \<or> b = fullB"
  shows "runJob sampleNode (jobFor bid) s =
           confirmPayment sampleNode s (submittedRow b) bid sampleTx 10143 False False
             30 ''USDC'' sampleReceipt
             \<lparr>tx_from = ''0x70997970c51812dc3a010c7d01b50e0d17dc79c8'', gasPrice = Some 52\<rparr>"
proof -
  have r: "resolveExpected (submittedRow b) False = Inr (Expected False (Some 30) ''USDC'')"
    using assms(2)
    by (auto simp: resolveExpected_def isReservationPayment_def submittedRow_def fullA_def
          fullB_def newBooking_def orElse_def)
  from sample_verify_succeeds[OF assms(1) r] show ?thesis
    by (auto simp: runJob_def jobFor_def)
qed

lemma sample_confirm_full:
  "fullData sampleNode (Some 30) sampleReceipt
     \<lparr>tx_from = ''0x70997970c51812dc3a010c7d01b50e0d17dc79c8'', gasPrice = Some 52\<rparr> x
   = confirmedRow x"
  by (simp add: fullData_def confirmedRow_def sampleNode_def sampleEnv_def sampleReceipt_def
        transferReceipt_def)

lemma sample_rows:
  "bookingId (submittedRow fullA) = ''BK-A''" "bookingId (submittedRow fullB) = ''BK-B''"
  "bookingId (confirmedRow x) = bookingId x"
  "paymentAmount (submittedRow fullA) = Some 30" "paymentAmount (submittedRow fullB) = Some 30"
  "userEmail (submittedRow fullA) = None" "userEmail (submittedRow fullB) = None"
  "dbId (submittedRow fullA) = ''BK-A''" "dbId (submittedRow fullB) = ''BK-B''"
  by (simp_all add: submittedRow_def confirmedRow_def fullA_def fullB_def newBooking_def)

lemma sampleTx_nonempty: "sampleTx \<noteq> []"
  by (simp add: sampleTx_def)

lemma consumed_by_other_impossible:
  assumes "submitPayment s rq = (Accepted pt, s1, Some j)"
    and "req_bookingId rq = Some bid" and "req_txHash rq = Some h"
    and "runJob e j s1 = Inr s2"
    and "x \<in> set (bookings s2)" and "usedBy h x"
  shows "bookingId x = bid"
proof (rule ccontr)
  assume ne: "bookingId x \<noteq> bid"
  note acc = submitPayment_accepted[OF assms(1-3)]
  from assms(4) acc(2) have "verifyLoop e bid (job_txHash j) (job_chainId j)
      (job_isRemainingPayment j) (job_maxRetries j) 0 s1 = Inr s2"
    by (simp add: runJob_def verifyPayment_def)
  from verifyLoop_others[OF this assms(5) ne] have "x \<in> set (bookings s1)" .
  from acc(3)[OF this ne] have "x \<in> set (bookings s)" .
  with assms(6) have "checkTransactionUsed (bookings s) h"
    by (auto simp: checkTransactionUsed_iff)
  with acc(1) show False by simp
qed

text \<open>
  Claim C1, as amended. The replay guard is a check at submission time. A submission is
  accepted only if no booking holds its hash in a consumed state at that moment (bound
  to a \<open>CONFIRMED\<close> full payment, or to a true \<open>reservationPaid\<close> or \<open>remainingPaid\<close>
  flag); and if the verification it starts runs to completion on the store the
  submission left, then afterwards no booking other than the submitted one holds the
  hash in a consumed state. The success-path update itself is not conditional: it is
  addressed by \<open>bookingId\<close> alone, so for whatever row the store holds under that
  identifier when the update runs, also one that differs from the booking read at the
  start of the attempt, the update succeeds and sets the status (\<open>RESERVED\<close> for a
  reservation payment, \<open>CONFIRMED\<close> otherwise).
\<close>

theorem replay_guard_is_sequential:
  "(submitPayment s rq = (Accepted pt, s1, Some j)
      \<and> req_bookingId rq = Some bid \<and> req_txHash rq = Some h
      \<and> runJob e j s1 = Inr s2 \<longrightarrow>
      \<not> checkTransactionUsed (bookings s) h
      \<and> (\<forall>x \<in> set (bookings s2).
            (txHash x = Some h \<and> status x = CONFIRMED)
            \<or> (reservationTxHash x = Some h \<and> reservationPaid x)
            \<or> (remainingTxHash x = Some h \<and> remainingPaid x) \<longrightarrow>
            bookingId x = bid))
   \<and> (findUnique (bookings s') bid' = Some x' \<longrightarrow>
        (\<exists>s'' y. confirmPayment e s' b bid' h' cid isReservation isRemainingPayment a tok r tx
                    = Inr s''
           \<and> findUnique (bookings s'') bid' = Some y
           \<and> status y = (if isReservation then RESERVED else CONFIRMED)))"
proof (intro conjI impI ballI)
  assume "submitPayment s rq = (Accepted pt, s1, Some j)
      \<and> req_bookingId rq = Some bid \<and> req_txHash rq = Some h
      \<and> runJob e j s1 = Inr s2"
  then show "\<not> checkTransactionUsed (bookings s) h"
    using submitPayment_accepted(1) by blast
next
  fix x
  assume "submitPayment s rq = (Accepted pt, s1, Some j)
      \<and> req_bookingId rq = Some bid \<and> req_txHash rq = Some h
      \<and> runJob e j s1 = Inr s2"
    and "x \<in> set (bookings s2)"
    and "(txHash x = Some h \<and> status x = CONFIRMED)
            \<or> (reservationTxHash x = Some h \<and> reservationPaid x)
            \<or> (remainingTxHash x = Some h \<and> remainingPaid x)"
  then show "bookingId x = bid"
    using consumed_by_other_impossible[of s rq pt s1 j bid h e s2 x]
    by (simp add: usedBy_def)
next
  assume "findUnique (bookings s') bid' = Some x'"
  from confirmPayment_row[OF this]
  show "\<exists>s'' y. confirmPayment e s' b bid' h' cid isReservation isRemainingPayment a tok r tx
                    = Inr s''
           \<and> findUnique (bookings s'') bid' = Some y
           \<and> status y = (if isReservation then RESERVED else CONFIRMED)" .
qed

lemma sample_submit_A:
  "submitPayment (storeOf [fullA, fullB]) (submission ''BK-A'' sampleTx ''USDC'' False)
     = (Accepted full,
        \<lparr>bookings = [submittedRow fullA, fullB], activityLog = [submittedEntry ''BK-A''],
          outbox = []\<rparr>,
        Some (jobFor ''BK-A''))"
  using validTxHash_sampleTx sampleTx_nonempty
  by (simp add: submitPayment_def submission_def storeOf_def checkTransactionUsed_def
        usedBy_def findUnique_def guards_def truthyStr_def falsyNum_def recordHash_def
        submittedRow_def submittedEntry_def jobFor_def fullA_def fullB_def newBooking_def)

lemma sample_submit_B:
  "submitPayment
     \<lparr>bookings = [submittedRow fullA, fullB], activityLog = [submittedEntry ''BK-A''],
       outbox = []\<rparr>
     (submission ''BK-B'' sampleTx ''USDC'' False)
     = (Accepted full,
        \<lparr>bookings = [submittedRow fullA, submittedRow fullB],
          activityLog = [submittedEntry ''BK-A'', submittedEntry ''BK-B''], outbox = []\<rparr>,
        Some (jobFor ''BK-B''))"
  using validTxHash_sampleTx sampleTx_nonempty
  by (simp add: submitPayment_def submission_def checkTransactionUsed_def
        usedBy_def findUnique_def guards_def truthyStr_def falsyNum_def recordHash_def
        submittedRow_def submittedEntry_def jobFor_def fullA_def fullB_def newBooking_def)

lemma sample_run_A:
  "runJob sampleNode (jobFor ''BK-A'')
     \<lparr>bookings = [submittedRow fullA, submittedRow fullB], activityLog = lg, outbox = []\<rparr>
   = Inr \<lparr>bookings = [confirmedRow (submittedRow fullA), submittedRow fullB],
          activityLog = lg @ [confirmedEntry ''BK-A''], outbox = []\<rparr>"
proof -
  have "findUnique (bookings \<lparr>bookings = [submittedRow fullA, submittedRow fullB],
                              activityLog = lg, outbox = []\<rparr>) ''BK-A''
          = Some (submittedRow fullA)"
    by (simp add: findUnique_def sample_rows)
  from sample_full_run[OF this] show ?thesis
    by (simp add: confirmPayment_def sample_rows sample_confirm_full sendTo_def logPaid_def
          confirmedEntry_def)
qed

lemma sample_run_B:
  "runJob sampleNode (jobFor ''BK-B'')
     \<lparr>bookings = [rowA, submittedRow fullB], activityLog = lg, outbox = []\<rparr>
   = Inr \<lparr>bookings = [rowA, confirmedRow (submittedRow fullB)],
          activityLog = lg @ [confirmedEntry ''BK-B''], outbox = []\<rparr>"
  if "bookingId rowA = ''BK-A''"
proof -
  have "findUnique (bookings \<lparr>bookings = [rowA, submittedRow fullB],
                              activityLog = lg, outbox = []\<rparr>) ''BK-B''
          = Some (submittedRow fullB)"
    using that by (simp add: findUnique_def sample_rows)
  from sample_full_run[OF this] that show ?thesis
    by (simp add: confirmPayment_def sample_rows sample_confirm_full sendTo_def logPaid_def
          confirmedEntry_def)
qed

theorem replay_guard_is_sequential_witness:
  "submitPayment (storeOf [fullA, fullB]) (submission ''BK-A'' sampleTx ''USDC'' False)
     = (Accepted full,
        \<lparr>bookings = [submittedRow fullA, fullB], activityLog = [submittedEntry ''BK-A''],
          outbox = []\<rparr>,
        Some (jobFor ''BK-A''))
   \<and> runJob sampleNode (jobFor ''BK-A'')
        \<lparr>bookings = [submittedRow fullA, fullB], activityLog = [submittedEntry ''BK-A''],
          outbox = []\<rparr>
      = Inr \<lparr>bookings = [confirmedRow (submittedRow fullA), fullB],
             activityLog = [submittedEntry ''BK-A'', confirmedEntry ''BK-A''], outbox = []\<rparr>
   \<and> \<not> checkTransactionUsed [fullA, fullB] sampleTx
   \<and> checkTransactionUsed [confirmedRow (submittedRow fullA), fullB] sampleTx
   \<and> \<not> checkTransactionUsed [fullB] sampleTx"
proof -
  let ?s1 = "\<lparr>bookings = [submittedRow fullA, fullB], activityLog = [submittedEntry ''BK-A''],
              outbox = []\<rparr>"
  let ?s2 = "\<lparr>bookings = [confirmedRow (submittedRow fullA), fullB],
              activityLog = [submittedEntry ''BK-A'', confirmedEntry ''BK-A''], outbox = []\<rparr>"
  have f: "findUnique (bookings ?s1) ''BK-A'' = Some (submittedRow fullA)"
    by (simp add: findUnique_def sample_rows)
  have run: "runJob sampleNode (jobFor ''BK-A'') ?s1 = Inr ?s2"
    using sample_full_run[OF f]
    by (simp add: confirmPayment_def sample_rows sample_confirm_full sendTo_def logPaid_def
          confirmedEntry_def fullB_def newBooking_def)
  have used: "checkTransactionUsed [confirmedRow (submittedRow fullA), fullB] sampleTx"
    by (simp add: checkTransactionUsed_def usedBy_def confirmedRow_def submittedRow_def)
  from replay_guard_is_sequential[of "storeOf [fullA, fullB]"
      "submission ''BK-A'' sampleTx ''USDC'' False" full ?s1 "jobFor ''BK-A''" "''BK-A''"
      sampleTx sampleNode ?s2]
    sample_submit_A run
  have "\<not> checkTransactionUsed [fullA, fullB] sampleTx"
    and "(txHash fullB = Some sampleTx \<and> status fullB = CONFIRMED)
            \<or> (reservationTxHash fullB = Some sampleTx \<and> reservationPaid fullB)
            \<or> (remainingTxHash fullB = Some sampleTx \<and> remainingPaid fullB)
          \<longrightarrow> bookingId fullB = ''BK-A''"
    by (simp_all add: submission_def storeOf_def)
  then have "\<not> checkTransactionUsed [fullA, fullB] sampleTx"
    and "\<not> checkTransactionUsed [fullB] sampleTx"
    by (simp_all add: checkTransactionUsed_def usedBy_def fullB_def newBooking_def)
  with sample_submit_A run used show ?thesis by simp
qed

text \<open>
  Claim C1 as stated holds also for submissions that overlap, and has the success-path
  update conditional on the expected pre-state. Two bookings are submitted with the same
  hash, the second before the verification of the first has run; both verifications then
  succeed, and the hash is consumed by both bookings. And the update of the success path
  is applied to a row that was cancelled after the attempt had read it as pending.
\<close>

theorem double_spend_counterexample:
  "submitPayment (storeOf [fullA, fullB]) (submission ''BK-A'' sampleTx ''USDC'' False)
     = (Accepted full,
        \<lparr>bookings = [submittedRow fullA, fullB], activityLog = [submittedEntry ''BK-A''],
          outbox = []\<rparr>,
        Some (jobFor ''BK-A''))
   \<and> submitPayment
        \<lparr>bookings = [submittedRow fullA, fullB], activityLog = [submittedEntry ''BK-A''],
          outbox = []\<rparr>
        (submission ''BK-B'' sampleTx ''USDC'' False)
     = (Accepted full,
        \<lparr>bookings = [submittedRow fullA, submittedRow fullB],
          activityLog = [submittedEntry ''BK-A'', submittedEntry ''BK-B''], outbox = []\<rparr>,
        Some (jobFor ''BK-B''))
   \<and> runJob sampleNode (jobFor ''BK-A'')
        \<lparr>bookings = [submittedRow fullA, submittedRow fullB],
          activityLog = [submittedEntry ''BK-A'', submittedEntry ''BK-B''], outbox = []\<rparr>
     = Inr \<lparr>bookings = [confirmedRow (submittedRow fullA), submittedRow fullB],
            activityLog = [submittedEntry ''BK-A'', submittedEntry ''BK-B'',
                           confirmedEntry ''BK-A''],
            outbox = []\<rparr>
   \<and> runJob sampleNode (jobFor ''BK-B'')
        \<lparr>bookings = [confirmedRow (submittedRow fullA), submittedRow fullB],
          activityLog = [submittedEntry ''BK-A'', submittedEntry ''BK-B'',
                         confirmedEntry ''BK-A''],
          outbox = []\<rparr>
     = Inr \<lparr>bookings = [confirmedRow (submittedRow fullA), confirmedRow (submittedRow fullB)],
            activityLog = [submittedEntry ''BK-A'', submittedEntry ''BK-B'',
                           confirmedEntry ''BK-A'', confirmedEntry ''BK-B''],
            outbox = []\<rparr>
   \<and> bookingId (confirmedRow (submittedRow fullA)) = ''BK-A''
   \<and> txHash (confirmedRow (submittedRow fullA)) = Some sampleTx
   \<and> status (confirmedRow (submittedRow fullA)) = CONFIRMED
   \<and> bookingId (confirmedRow (submittedRow fullB)) = ''BK-B''
   \<and> txHash (confirmedRow (submittedRow fullB)) = Some sampleTx
   \<and> status (confirmedRow (submittedRow fullB)) = CONFIRMED
   \<and> status (submittedRow fullA) = PENDING
   \<and> confirmPayment sampleNode (storeOf [(submittedRow fullA)\<lparr>status := CANCELLED\<rparr>])
        (submittedRow fullA) ''BK-A'' sampleTx 10143 False False 30 ''USDC'' sampleReceipt
        \<lparr>tx_from = ''0x70997970c51812dc3a010c7d01b50e0d17dc79c8'', gasPrice = Some 52\<rparr>
     = Inr \<lparr>bookings = [confirmedRow (submittedRow fullA)],
            activityLog = [confirmedEntry ''BK-A''], outbox = []\<rparr>"
proof -
  have rows: "bookingId (confirmedRow (submittedRow fullA)) = ''BK-A''"
    "txHash (confirmedRow (submittedRow fullA)) = Some sampleTx"
    "status (confirmedRow (submittedRow fullA)) = CONFIRMED"
    "bookingId (confirmedRow (submittedRow fullB)) = ''BK-B''"
    "txHash (confirmedRow (submittedRow fullB)) = Some sampleTx"
    "status (confirmedRow (submittedRow fullB)) = CONFIRMED"
    "status (submittedRow fullA) = PENDING"
    by (simp_all add: confirmedRow_def submittedRow_def fullA_def fullB_def newBooking_def)
  have late: "confirmPayment sampleNode (storeOf [(submittedRow fullA)\<lparr>status := CANCELLED\<rparr>])
        (submittedRow fullA) ''BK-A'' sampleTx 10143 False False 30 ''USDC'' sampleReceipt
        \<lparr>tx_from = ''0x70997970c51812dc3a010c7d01b50e0d17dc79c8'', gasPrice = Some 52\<rparr>
     = Inr \<lparr>bookings = [confirmedRow (submittedRow fullA)],
            activityLog = [confirmedEntry ''BK-A''], outbox = []\<rparr>"
    by (simp add: confirmPayment_def storeOf_def sample_rows sample_confirm_full sendTo_def
          logPaid_def confirmedEntry_def confirmedRow_def)
  show ?thesis
    using sample_submit_A sample_submit_B
      sample_run_A[of "[submittedEntry ''BK-A'', submittedEntry ''BK-B'']"]
      sample_run_B[of "confirmedRow (submittedRow fullA)"
         "[submittedEntry ''BK-A'', submittedEntry ''BK-B'', confirmedEntry ''BK-A'']"]
      rows late
    by simp
qed

section \<open>Re-verification of a paid reservation\<close>

text \<open>
  Where the early return of a phase is reached, a further verification changes nothing:
  a reservation booking with status \<open>RESERVED\<close> whose \<open>reservationPaid\<close> is still
  false, a remaining payment whose reservation is paid and whose booking is
  \<open>CONFIRMED\<close> or has \<open>remainingPaid\<close>, and a full payment whose booking is
  \<open>CONFIRMED\<close>.
\<close>

lemma reverify_returns_early:
  assumes "findUnique (bookings s) bid = Some b" and "0 < maxRetries"
    and "(requiresReservation b \<and> \<not> reservationPaid b \<and> \<not> isRemainingPayment
            \<and> status b = RESERVED)
         \<or> (isRemainingPayment \<and> reservationPaid b
              \<and> (status b = CONFIRMED \<or> remainingPaid b))
         \<or> (\<not> isRemainingPayment \<and> \<not> (requiresReservation b \<and> \<not> reservationPaid b)
              \<and> status b = CONFIRMED)"
  shows "verifyPayment e s bid h cid isRemainingPayment maxRetries = Inr s"
proof -
  from assms(3) have "resolveExpected b isRemainingPayment = Inr AlreadyVerified"
    by (auto simp: resolveExpected_def isReservationPayment_def)
  with assms(1) have "tryBody e s bid h cid isRemainingPayment 0 = Return s"
    by (simp add: tryBody_def)
  then have "iteration e s bid h cid isRemainingPayment maxRetries 0 = Exit (Inr s)"
    by (simp add: iteration_def)
  from verifyLoop_Exit[OF assms(2) this] show ?thesis
    by (simp add: verifyPayment_def)
qed

text \<open>
  Claim C2 fails on the code for the reservation phase. A reservation booking whose
  payment was locked to the reservation amount (30 USDC) is verified twice with the same
  arguments, on a node that has the receipt. The first verification moves it from
  \<open>PENDING\<close> to \<open>RESERVED\<close> and sends the reservation mail. The second does not return
  early: the reservation branch is only entered while \<open>reservationPaid\<close> is false, so the
  call is taken for a full payment, the same transaction is matched against
  \<open>paymentAmount\<close>, and the booking is moved from \<open>RESERVED\<close> to \<open>CONFIRMED\<close>, with a
  second activity log entry and a confirmation mail.
\<close>

theorem reverify_reserved_is_not_noop:
  "verifyPayment sampleNode (storeOf [lockedReservation30]) ''BK-1'' sampleTx 10143 False 10
     = Inr \<lparr>bookings = [reservedRow lockedReservation30],
            activityLog = [\<lparr>log_booking = ''BK-1'', log_action = reservation_paid,
                             log_error = None, log_txHash = Some sampleTx\<rparr>],
            outbox = [\<lparr>kind = ReservationConfirmedEmail,
                        recipientEmail = ''guest@example.com'', mail_bookingId = ''BK-1'',
                        mail_txHash = sampleTx, mail_amount = Some 30\<rparr>]\<rparr>
   \<and> status (reservedRow lockedReservation30) = RESERVED
   \<and> reservationPaid (reservedRow lockedReservation30)
   \<and> verifyPayment sampleNode
        \<lparr>bookings = [reservedRow lockedReservation30],
          activityLog = [\<lparr>log_booking = ''BK-1'', log_action = reservation_paid,
                           log_error = None, log_txHash = Some sampleTx\<rparr>],
          outbox = [\<lparr>kind = ReservationConfirmedEmail,
                      recipientEmail = ''guest@example.com'', mail_bookingId = ''BK-1'',
                      mail_txHash = sampleTx, mail_amount = Some 30\<rparr>]\<rparr>
        ''BK-1'' sampleTx 10143 False 10
     = Inr \<lparr>bookings = [confirmedRow (reservedRow lockedReservation30)],
            activityLog = [\<lparr>log_booking = ''BK-1'', log_action = reservation_paid,
                             log_error = None, log_txHash = Some sampleTx\<rparr>,
                           confirmedEntry ''BK-1''],
            outbox = [\<lparr>kind = ReservationConfirmedEmail,
                        recipientEmail = ''guest@example.com'', mail_bookingId = ''BK-1'',
                        mail_txHash = sampleTx, mail_amount = Some 30\<rparr>,
                      \<lparr>kind = ConfirmationEmail,
                        recipientEmail = ''guest@example.com'', mail_bookingId = ''BK-1'',
                        mail_txHash = sampleTx, mail_amount = Some 30\<rparr>]\<rparr>
   \<and> status (confirmedRow (reservedRow lockedReservation30)) = CONFIRMED"
proof -
  let ?tx = "\<lparr>tx_from = ''0x70997970c51812dc3a010c7d01b50e0d17dc79c8'', gasPrice = Some 52\<rparr>"
  let ?s1 = "\<lparr>bookings = [reservedRow lockedReservation30],
          activityLog = [\<lparr>log_booking = ''BK-1'', log_action = reservation_paid,
                           log_error = None, log_txHash = Some sampleTx\<rparr>],
          outbox = [\<lparr>kind = ReservationConfirmedEmail,
                      recipientEmail = ''guest@example.com'', mail_bookingId = ''BK-1'',
                      mail_txHash = sampleTx, mail_amount = Some 30\<rparr>]\<rparr>"
  have f0: "findUnique (bookings (storeOf [lockedReservation30])) ''BK-1''
              = Some lockedReservation30"
    by (simp add: findUnique_def storeOf_def lockedReservation30_def newBooking_def)
  have r0: "resolveExpected lockedReservation30 False = Inr (Expected True (Some 30) ''USDC'')"
    by (simp add: resolveExpected_def isReservationPayment_def lockedReservation30_def
          newBooking_def orElse_def)
  have rd: "reservedData sampleNode sampleTx 10143 ''USDC'' sampleReceipt ?tx x = reservedRow x"
    for x
    by (simp add: reservedData_def reservedRow_def sampleNode_def sampleEnv_def
          sampleReceipt_def transferReceipt_def)
  have mail: "sendMail sampleNode m" for m by (simp add: sampleNode_def sampleEnv_def)
  have fields0: "bookingId lockedReservation30 = ''BK-1''" "dbId lockedReservation30 = ''BK-1''"
    "userEmail lockedReservation30 = Some ''guest@example.com''" "hasStay lockedReservation30"
    "paymentAmount lockedReservation30 = Some 30"
    by (simp_all add: lockedReservation30_def newBooking_def)
  have fields1: "bookingId (reservedRow x) = bookingId x" "dbId (reservedRow x) = dbId x"
    "userEmail (reservedRow x) = userEmail x" "hasStay (reservedRow x) = hasStay x"
    "paymentAmount (reservedRow x) = paymentAmount x"
    "status (reservedRow x) = RESERVED" "reservationPaid (reservedRow x)"
    "status (confirmedRow x) = CONFIRMED" for x
    by (simp_all add: reservedRow_def confirmedRow_def)
  from sample_verify_succeeds[OF f0 r0]
  have "verifyPayment sampleNode (storeOf [lockedReservation30]) ''BK-1'' sampleTx 10143 False 10
          = confirmPayment sampleNode (storeOf [lockedReservation30]) lockedReservation30
              ''BK-1'' sampleTx 10143 True False 30 ''USDC'' sampleReceipt ?tx"
    by auto
  also have "\<dots> = Inr ?s1"
    by (simp add: confirmPayment_def storeOf_def fields0 rd sendTo_def logPaid_def mail)
  finally have first: "verifyPayment sampleNode (storeOf [lockedReservation30]) ''BK-1''
      sampleTx 10143 False 10 = Inr ?s1" .
  have f1: "findUnique (bookings ?s1) ''BK-1'' = Some (reservedRow lockedReservation30)"
    by (simp add: findUnique_def fields0 fields1)
  have r1: "resolveExpected (reservedRow lockedReservation30) False
              = Inr (Expected False (Some 30) ''USDC'')"
    by (simp add: resolveExpected_def isReservationPayment_def reservedRow_def
          lockedReservation30_def newBooking_def orElse_def)
  from sample_verify_succeeds[OF f1 r1]
  have "verifyPayment sampleNode ?s1 ''BK-1'' sampleTx 10143 False 10
          = confirmPayment sampleNode ?s1 (reservedRow lockedReservation30)
              ''BK-1'' sampleTx 10143 False False 30 ''USDC'' sampleReceipt ?tx"
    by auto
  also have "\<dots> = Inr \<lparr>bookings = [confirmedRow (reservedRow lockedReservation30)],
            activityLog = [\<lparr>log_booking = ''BK-1'', log_action = reservation_paid,
                             log_error = None, log_txHash = Some sampleTx\<rparr>,
                           confirmedEntry ''BK-1''],
            outbox = [\<lparr>kind = ReservationConfirmedEmail,
                        recipientEmail = ''guest@example.com'', mail_bookingId = ''BK-1'',
                        mail_txHash = sampleTx, mail_amount = Some 30\<rparr>,
                      \<lparr>kind = ConfirmationEmail,
                        recipientEmail = ''guest@example.com'', mail_bookingId = ''BK-1'',
                        mail_txHash = sampleTx, mail_amount = Some 30\<rparr>]\<rparr>"
    by (simp add: confirmPayment_def fields0 fields1 sample_confirm_full sendTo_def logPaid_def
          mail confirmedEntry_def)
  finally have second: "verifyPayment sampleNode ?s1 ''BK-1'' sampleTx 10143 False 10
     = Inr \<lparr>bookings = [confirmedRow (reservedRow lockedReservation30)],
            activityLog = [\<lparr>log_booking = ''BK-1'', log_action = reservation_paid,
                             log_error = None, log_txHash = Some sampleTx\<rparr>,
                           confirmedEntry ''BK-1''],
            outbox = [\<lparr>kind = ReservationConfirmedEmail,
                        recipientEmail = ''guest@example.com'', mail_bookingId = ''BK-1'',
                        mail_txHash = sampleTx, mail_amount = Some 30\<rparr>,
                      \<lparr>kind = ConfirmationEmail,
                        recipientEmail = ''guest@example.com'', mail_bookingId = ''BK-1'',
                        mail_txHash = sampleTx, mail_amount = Some 30\<rparr>]\<rparr>" .
  show ?thesis using first second fields1(6,7,8) by simp
qed

end
